theory Spec2Isabelle
  imports Main "HOL-Library.Sublist"
begin

section \<open>Strings\<close>

text \<open>
  A JavaScript string is modelled as the list of its code units, each an Isabelle
  \<^typ>\<open>char\<close>, that is a code unit in the range U+0000 to U+00FF. The functions below
  are the built-in string operations that \<^verbatim>\<open>text.ts\<close> calls, and \<^verbatim>\<open>encode\<close> of the
  \<^verbatim>\<open>html-entities\<close> package with its default options.
\<close>

abbreviation LF :: char where "LF \<equiv> CHR 0x0A"

abbreviation CR :: char where "CR \<equiv> CHR 0x0D"

abbreviation TAB :: char where "TAB \<equiv> CHR 0x09"

abbreviation DQ :: char where "DQ \<equiv> CHR 0x22"

abbreviation SQ :: char where "SQ \<equiv> CHR 0x27"

text \<open>White space and line terminators of ECMAScript below U+0100 (\<^verbatim>\<open>\s\<close>, \<^verbatim>\<open>trim\<close>).\<close>

definition is_ws :: "char \<Rightarrow> bool" where
  "is_ws c \<longleftrightarrow>
     c = TAB \<or> c = LF \<or> c = CHR 0x0B \<or> c = CHR 0x0C \<or> c = CR \<or> c = CHR 0x20 \<or> c = CHR 0xA0"

definition trimStart :: "string \<Rightarrow> string" where
  "trimStart s = dropWhile is_ws s"

definition trimEnd :: "string \<Rightarrow> string" where
  "trimEnd s = rev (dropWhile is_ws (rev s))"

definition trim :: "string \<Rightarrow> string" where
  "trim s = trimEnd (trimStart s)"

text \<open>\<^verbatim>\<open>s.replace(/^#/, "")\<close>\<close>

fun strip_hash :: "string \<Rightarrow> string" where
  "strip_hash [] = []"
| "strip_hash (c # cs) = (if c = CHR ''#'' then cs else c # cs)"

text \<open>
  \<^verbatim>\<open>s.replace(/\s+/g, " ")\<close>: every maximal run of white space becomes one space. The
  flag says whether the previous code unit belonged to a run already replaced.
\<close>

fun collapse_ws :: "bool \<Rightarrow> string \<Rightarrow> string" where
  "collapse_ws in_run [] = []"
| "collapse_ws in_run (c # cs) =
     (if is_ws c then (if in_run then collapse_ws True cs else CHR '' '' # collapse_ws True cs)
      else c # collapse_ws False cs)"

text \<open>\<^verbatim>\<open>toLowerCase\<close> on code units below U+0100.\<close>

definition toLowerCase_char :: "char \<Rightarrow> char" where
  "toLowerCase_char c =
     (let n = (of_char c :: nat) in
      if (65 \<le> n \<and> n \<le> 90) \<or> (192 \<le> n \<and> n \<le> 222 \<and> n \<noteq> 215) then char_of (n + 32) else c)"

definition toLowerCase :: "string \<Rightarrow> string" where
  "toLowerCase s = map toLowerCase_char s"

text \<open>
  \<^verbatim>\<open>encodeURIComponent\<close>: letters, digits and \<^verbatim>\<open>- _ . ! ~ * ' ( )\<close> stay, every other
  code unit becomes the percent-encoded bytes of its UTF-8 form.
\<close>

definition uri_unreserved :: "char \<Rightarrow> bool" where
  "uri_unreserved c =
     (let n = (of_char c :: nat) in
      (65 \<le> n \<and> n \<le> 90) \<or> (97 \<le> n \<and> n \<le> 122) \<or> (48 \<le> n \<and> n \<le> 57) \<or>
      c \<in> set ''-_.!~*()'' \<or> c = SQ)"

definition hex_digit :: "nat \<Rightarrow> char" where
  "hex_digit n = (if n < 10 then char_of (48 + n) else char_of (55 + n))"

definition percent :: "nat \<Rightarrow> string" where
  "percent b = [CHR ''%'', hex_digit (b div 16), hex_digit (b mod 16)]"

definition utf8_bytes :: "char \<Rightarrow> nat list" where
  "utf8_bytes c =
     (let n = (of_char c :: nat) in if n < 128 then [n] else [192 + n div 64, 128 + n mod 64])"

definition encodeURIComponent :: "string \<Rightarrow> string" where
  "encodeURIComponent s =
     concat (map (\<lambda>c. if uri_unreserved c then [c] else concat (map percent (utf8_bytes c))) s)"

text \<open>
  \<^verbatim>\<open>encode\<close> of \<^verbatim>\<open>html-entities\<close> (mode \<^verbatim>\<open>specialChars\<close>): the five characters
  \<^verbatim>\<open>< > & " '\<close> become named references, everything else is kept.
\<close>

definition encode_char :: "char \<Rightarrow> string" where
  "encode_char c =
     (if c = CHR ''<'' then ''&lt;''
      else if c = CHR ''>'' then ''&gt;''
      else if c = CHR ''&'' then ''&amp;''
      else if c = DQ then ''&quot;''
      else if c = SQ then ''&apos;''
      else [c])"

definition encode :: "string \<Rightarrow> string" where
  "encode s = concat (map encode_char s)"

text \<open>\<^verbatim>\<open>s.split("\n")\<close>, for any one-character separator.\<close>

fun split_on :: "char \<Rightarrow> string \<Rightarrow> string list" where
  "split_on sep [] = [[]]"
| "split_on sep (c # cs) =
     (if c = sep then [] # split_on sep cs
      else (case split_on sep cs of [] \<Rightarrow> [[c]] | p # ps \<Rightarrow> (c # p) # ps))"

subsection \<open>The paragraph separator \<^verbatim>\<open>/([ \t]*\r?\n){2,}/g\<close>\<close>

definition is_hspace :: "char \<Rightarrow> bool" where
  "is_hspace c \<longleftrightarrow> c = CHR 0x20 \<or> c = TAB"

text \<open>
  One iteration of the group \<^verbatim>\<open>([ \t]*\r?\n)\<close> at the start of \<open>s\<close>: the rest of \<open>s\<close>
  behind it. The three character classes are disjoint, so no shorter choice of
  \<^verbatim>\<open>[ \t]*\<close> or \<^verbatim>\<open>\r?\<close> can match where the longest does not.
\<close>

definition match_blank :: "string \<Rightarrow> string option" where
  "match_blank s =
     (case dropWhile is_hspace s of
        [] \<Rightarrow> None
      | c # r \<Rightarrow>
          if c = LF then Some r
          else if c = CR then (case r of [] \<Rightarrow> None | d # r' \<Rightarrow> if d = LF then Some r' else None)
          else None)"

lemma match_blank_shorter: "match_blank s = Some r \<Longrightarrow> length r < length s"
proof -
  assume m: "match_blank s = Some r"
  have d: "length (dropWhile is_hspace s) \<le> length s"
    by (rule length_dropWhile_le)
  from m obtain c t where t: "dropWhile is_hspace s = c # t" and "length r \<le> length t"
    by (auto simp: match_blank_def split: list.splits if_splits)
  with d show ?thesis by simp
qed

text \<open>
  The greedy repetition: \<open>n\<close> iterations matched so far, the last of them being \<open>cap\<close>.
  The result is the number of iterations, the text of the last one (what the capture
  group holds) and the rest of the string.
\<close>

function iterate_blank :: "nat \<Rightarrow> string \<Rightarrow> string \<Rightarrow> nat \<times> string \<times> string" where
  "iterate_blank n cap s =
     (case match_blank s of
        None \<Rightarrow> (n, cap, s)
      | Some r \<Rightarrow> iterate_blank (Suc n) (take (length s - length r) s) r)"
  by pat_completeness auto

termination
  by (relation "measure (\<lambda>(n, cap, s). length s)") (auto dest: match_blank_shorter)

declare iterate_blank.simps [simp del]

text \<open>The whole pattern at the start of \<open>s\<close>: the capture and the rest behind the match.\<close>

definition match_separator :: "string \<Rightarrow> (string \<times> string) option" where
  "match_separator s =
     (case iterate_blank 0 [] s of (n, cap, r) \<Rightarrow> if 2 \<le> n then Some (cap, r) else None)"

lemma iterate_blank_shorter:
  "iterate_blank n cap s = (m, cap', r) \<Longrightarrow> length r \<le> length s \<and> (n < m \<longrightarrow> length r < length s)"
proof (induction n cap s arbitrary: m cap' r rule: iterate_blank.induct)
  case (1 n cap s)
  show ?case
  proof (cases "match_blank s")
    case None
    with "1.prems" show ?thesis by (simp add: iterate_blank.simps)
  next
    case (Some t)
    with "1.prems" have "iterate_blank (Suc n) (take (length s - length t) s) t = (m, cap', r)"
      by (simp add: iterate_blank.simps)
    from "1.IH" [OF Some this] match_blank_shorter [OF Some] show ?thesis by simp
  qed
qed

lemma match_separator_shorter: "match_separator s = Some (cap, r) \<Longrightarrow> length r < length s"
  by (auto simp: match_separator_def split: prod.splits if_splits dest: iterate_blank_shorter)

text \<open>
  \<^verbatim>\<open>s.split(/([ \t]*\r?\n){2,}/g)\<close>, as \<^verbatim>\<open>RegExp.prototype[Symbol.split]\<close> runs it:
  \<open>acc\<close> is the piece collected since the last match, the pattern is tried at every
  position from left to right, and a match contributes the piece before it and the text
  of its capture group to the result.
\<close>

function split_scan :: "string \<Rightarrow> string \<Rightarrow> string list" where
  "split_scan acc [] = [acc]"
| "split_scan acc (c # cs) =
     (case match_separator (c # cs) of
        Some (cap, r) \<Rightarrow> acc # cap # split_scan [] r
      | None \<Rightarrow> split_scan (acc @ [c]) cs)"
  by pat_completeness auto

termination
  by (relation "measure (\<lambda>(acc, s). length s)") (auto dest: match_separator_shorter)

definition split_paragraphs :: "string \<Rightarrow> string list" where
  "split_paragraphs s = split_scan [] s"

section \<open>Protocol values and the session\<close>

text \<open>
  A thrown value, and a promise by the way it settles. A URL object is modelled by its
  \<^verbatim>\<open>href\<close>.
\<close>

datatype err = TypeError | Err string

datatype 'a promise = Fulfilled 'a | Rejected err

type_synonym url = string

text \<open>\<^verbatim>\<open>actor.url\<close> is absent, a URL, or a \<^verbatim>\<open>Link\<close> whose \<^verbatim>\<open>href\<close> may be absent.\<close>

datatype actor_url = NoUrl | UrlValue url | LinkValue "url option"

record Actor =
  actor_id :: "url option"
  actor_url :: actor_url

text \<open>An object of the vocabulary; \<^verbatim>\<open>isActor\<close> holds of the first constructor only.\<close>

datatype Object = ActorObject Actor | OtherObject string

fun isActor :: "Object option \<Rightarrow> bool" where
  "isActor (Some (ActorObject a)) = True"
| "isActor _ = False"

record Emoji =
  emoji_name :: "string option"

text \<open>
  The tags that \<^verbatim>\<open>getTags\<close> yields: \<^verbatim>\<open>new Mention({name, href})\<close>,
  \<^verbatim>\<open>new Hashtag({name, href: new URL(path, base)})\<close> with the path and the base kept
  apart, and an emoji.
\<close>

datatype Tag = Mention string "url option" | Hashtag string string string | EmojiTag Emoji

datatype actor_ref = RefActor Actor | RefUrl url

text \<open>
  What the text tree reads from a \<^verbatim>\<open>Session\<close>: \<^verbatim>\<open>session.context.origin\<close>, the bot's
  identifier and handle, and the asynchronous collaborators, each by the way its promise
  settles.
\<close>

record Session =
  origin :: string
  actorId :: url
  actorHandle :: string
  getActor :: "Actor promise"
  getDocumentLoader :: "unit promise"
  lookupObject :: "string \<Rightarrow> Object option promise"
  getActorHandle :: "actor_ref \<Rightarrow> string promise"

text \<open>
  What an async generator does when it is run to its end: the values it yields, and the
  value it throws if it stops by throwing.
\<close>

type_synonym 'a gen = "'a list \<times> err option"

definition yields :: "'a list \<Rightarrow> 'a gen" where
  "yields xs = (xs, None)"

definition throws :: "err \<Rightarrow> 'a gen" where
  "throws e = ([], Some e)"

text \<open>One generator body after another: the second runs only if the first does not throw.\<close>

definition gen_seq :: "'a gen \<Rightarrow> 'a gen \<Rightarrow> 'a gen" where
  "gen_seq g h = (case snd g of None \<Rightarrow> (fst g @ fst h, snd h) | Some e \<Rightarrow> g)"

section \<open>The text tree\<close>

datatype kind = block | inline

text \<open>
  A label or an actor is given as a value or as a deferred resolver. A call of a resolver
  returns a promise (the right summand), or throws before it has returned one (the left
  summand).
\<close>

datatype label_source = LabelString string | LabelResolver "Session \<Rightarrow> err + string promise"

datatype actor_source =
  ActorValue Actor | ActorResolver "Session \<Rightarrow> err + Object option promise"

text \<open>
  The private fields of a \<^verbatim>\<open>MentionText\<close>. The last two fields are not in the source:
  they count how often each deferred resolver has been invoked on this node.
\<close>

record MentionText_fields =
  m_label :: label_source
  m_actor :: actor_source
  cachedObject :: "Object option"
  labelPromise :: "string promise option"
  actorPromise :: "Object option promise option"
  label_calls :: nat
  actor_calls :: nat

datatype emoji_source = EmojiValue Emoji | EmojiResolver "Session \<Rightarrow> Emoji"

text \<open>
  The external Markdown parser. \<^verbatim>\<open>MarkdownEnv\<close> is the scratch record of a render. A
  call \<^verbatim>\<open>render(source)\<close> without a record hands the plug-ins an empty object, on which
  every field is \<^verbatim>\<open>undefined\<close>: the callbacks below take \<open>None\<close> for it.
  \<^verbatim>\<open>plugin_options\<close> is the object of callbacks that \<^verbatim>\<open>md.use\<close> registers with a plug-in:
  \<^verbatim>\<open>link\<close> returns the target of a token, \<^verbatim>\<open>null\<close>, or throws. \<^verbatim>\<open>MarkdownIt_config\<close> is
  what the constructor of \<^verbatim>\<open>MarkdownText\<close> sets up: the options of the parser, and for
  each of the two plug-ins the callbacks it is registered with, if it is. An instance is
  modelled by its \<^verbatim>\<open>render(source, env)\<close>: it throws, or returns the HTML and pushes the
  handles and the hashtags it finds onto \<^verbatim>\<open>env.mentions\<close> and \<^verbatim>\<open>env.hashtags\<close> (the second
  and third component of the result).
\<close>

record MarkdownEnv =
  env_mentions :: "string list"
  env_hashtags :: "string list"
  env_origin :: string
  env_actors :: "(string \<times> string) list option"

record plugin_options =
  hook_link :: "string \<Rightarrow> MarkdownEnv option \<Rightarrow> err + string option"
  hook_linkAttributes :: "string \<Rightarrow> MarkdownEnv option \<Rightarrow> (string \<times> string) list"
  hook_label :: "string \<Rightarrow> MarkdownEnv option \<Rightarrow> string"

record MarkdownIt_config =
  html :: bool
  linkify :: bool
  mention_plugin :: "plugin_options option"
  hashtag_plugin :: "plugin_options option"

type_synonym MarkdownIt =
  "string \<Rightarrow> MarkdownEnv option \<Rightarrow> err + (string \<times> string list \<times> string list)"

record MarkdownTextOptions =
  opt_mentions :: "bool option"
  opt_hashtags :: "bool option"
  opt_linkify :: "bool option"

text \<open>
  The private fields of a \<^verbatim>\<open>MarkdownText\<close>. A \<^verbatim>\<open>Record<string, Object>\<close> is an
  association list in insertion order, which is the order of its entries as long as no
  key is an array index; the keys here are handles.
\<close>

record MarkdownText_fields =
  md_content :: string
  markdownIt :: MarkdownIt
  md_mentions :: "string list option"
  md_hashtags :: "string list option"
  md_actors :: "(string \<times> Object) list option"

text \<open>
  The ten classes that implement \<^verbatim>\<open>Text\<close>, each with its private fields. Two
  occurrences of a node in a tree are two objects.
\<close>

datatype Text =
    PlainText string
  | MentionText MentionText_fields
  | HashtagText string
  | StrongText Text
  | EmText Text
  | LinkText Text url
  | CodeText Text
  | CustomEmojiText emoji_source
  | TemplatedText "string list" "Text list"
  | MarkdownText MarkdownText_fields

text \<open>The \<^verbatim>\<open>type\<close> field of each class.\<close>

fun text_type :: "Text \<Rightarrow> kind" where
  "text_type (TemplatedText strings vals) = block"
| "text_type (MarkdownText m) = block"
| "text_type t = inline"

section \<open>Leaves\<close>

subsection \<open>\<^verbatim>\<open>PlainText\<close>\<close>

fun plain_lines :: "bool \<Rightarrow> string list \<Rightarrow> string list" where
  "plain_lines first [] = []"
| "plain_lines first (line # lines) =
     (if \<not> first then [''<br>''] else []) @ [encode line] @ plain_lines False lines"

definition PlainText_getHtml :: "string \<Rightarrow> string gen" where
  "PlainText_getHtml t = yields (plain_lines True (split_on LF t))"

subsection \<open>\<^verbatim>\<open>HashtagText\<close>\<close>

text \<open>The constructor normalises the tag; the datatype constructor holds \<^verbatim>\<open>#tag\<close>.\<close>

definition HashtagText_new :: "string \<Rightarrow> Text" where
  "HashtagText_new tag = HashtagText (collapse_ws False (trim (strip_hash (trimStart tag))))"

definition hashtag :: "string \<Rightarrow> Text" where
  "hashtag tag = HashtagText_new tag"

definition HashtagText_getHtml :: "Session \<Rightarrow> string \<Rightarrow> string gen" where
  "HashtagText_getHtml session tag = yields
     [''<a href=\"'',
      encode (origin session),
      ''/tags/'',
      encode (encodeURIComponent (toLowerCase tag)),
      ''\" class=\"mention hashtag\" rel=\"tag\" target=\"_blank\">#<span>'',
      tag,
      ''</span></a>'']"

definition HashtagText_getTags :: "Session \<Rightarrow> string \<Rightarrow> Tag gen" where
  "HashtagText_getTags session tag = yields
     [Hashtag (CHR ''#'' # toLowerCase tag)
        (''/tags/'' @ encodeURIComponent (toLowerCase tag)) (origin session)]"

subsection \<open>\<^verbatim>\<open>MentionText\<close>\<close>

definition MentionText_new :: "label_source \<Rightarrow> actor_source \<Rightarrow> MentionText_fields" where
  "MentionText_new label actor =
     \<lparr> m_label = label, m_actor = actor,
       cachedObject = (case actor of ActorValue a \<Rightarrow> Some (ActorObject a) | ActorResolver f \<Rightarrow> None),
       labelPromise = None, actorPromise = None, label_calls = 0, actor_calls = 0 \<rparr>"

text \<open>
  \<^verbatim>\<open>#getLabel\<close>: the promise it returns or the error it throws, and the node after the
  call. The assignment to \<^verbatim>\<open>#labelPromise\<close> takes place only if the call of the resolver
  returns: a resolver that throws leaves the field empty.
\<close>

definition getLabel ::
  "Session \<Rightarrow> MentionText_fields \<Rightarrow> (err + string promise) \<times> MentionText_fields" where
  "getLabel session m =
     (case m_label m of
        LabelString l \<Rightarrow> (Inr (Fulfilled l), m)
      | LabelResolver f \<Rightarrow>
          (case labelPromise m of
             Some p \<Rightarrow> (Inr p, m)
           | None \<Rightarrow>
               (case f session of
                  Inl e \<Rightarrow> (Inl e, m\<lparr>label_calls := Suc (label_calls m)\<rparr>)
                | Inr p \<Rightarrow>
                    (Inr p, m\<lparr>labelPromise := Some p, label_calls := Suc (label_calls m)\<rparr>))))"

text \<open>
  \<^verbatim>\<open>#getActor\<close>, the synchronous part: the stored promise is the resolver's promise with
  the callback \<open>actor_then\<close> chained to it. Here too a resolver that throws leaves
  \<^verbatim>\<open>#actorPromise\<close> empty.
\<close>

definition getActor_start ::
  "Session \<Rightarrow> MentionText_fields \<Rightarrow> (err + Object option promise) \<times> MentionText_fields" where
  "getActor_start session m =
     (case m_actor m of
        ActorValue a \<Rightarrow> (Inr (Fulfilled (Some (ActorObject a))), m)
      | ActorResolver f \<Rightarrow>
          (case actorPromise m of
             Some p \<Rightarrow> (Inr p, m)
           | None \<Rightarrow>
               (case f session of
                  Inl e \<Rightarrow> (Inl e, m\<lparr>actor_calls := Suc (actor_calls m)\<rparr>)
                | Inr p \<Rightarrow>
                    (Inr p, m\<lparr>actorPromise := Some p, actor_calls := Suc (actor_calls m)\<rparr>))))"

text \<open>
  The callback of \<^verbatim>\<open>#getActor\<close>. It runs when the resolver's promise is fulfilled, before
  anything that awaits the stored promise goes on.
\<close>

definition actor_then :: "MentionText_fields \<Rightarrow> MentionText_fields" where
  "actor_then m =
     (case actorPromise m of
        Some (Fulfilled (Some actor)) \<Rightarrow> m\<lparr>cachedObject := Some actor\<rparr>
      | _ \<Rightarrow> m)"

text \<open>
  \<^verbatim>\<open>await this.#getActor(session)\<close>: if the call returns a promise, the callback has run
  by the time the \<^verbatim>\<open>await\<close> is over.
\<close>

definition getActor_await ::
  "Session \<Rightarrow> MentionText_fields \<Rightarrow> (err + Object option promise) \<times> MentionText_fields" where
  "getActor_await session m =
     (case getActor_start session m of
        (Inl e, m') \<Rightarrow> (Inl e, m')
      | (Inr p, m') \<Rightarrow> (Inr p, actor_then m'))"

text \<open>The link target of a resolved actor, \<^verbatim>\<open>url\<close> in \<^verbatim>\<open>MentionText.getHtml\<close>.\<close>

definition mention_url :: "Object option \<Rightarrow> url option" where
  "mention_url actor =
     (case actor of
        Some (ActorObject a) \<Rightarrow>
          (case actor_url a of NoUrl \<Rightarrow> actor_id a | LinkValue h \<Rightarrow> h | UrlValue u \<Rightarrow> Some u)
      | _ \<Rightarrow> None)"

definition mention_html :: "string \<Rightarrow> Object option \<Rightarrow> string list" where
  "mention_html label actor =
     (case mention_url actor of
        None \<Rightarrow> [encode label]
      | Some href \<Rightarrow>
          [''<a href=\"'', encode href,
           ''\" translate=\"no\" class=\"h-card u-url mention\" target=\"_blank\">''] @
          (case label of
             c # rest \<Rightarrow>
               if c = CHR ''@'' then [''@<span>'', encode rest, ''</span>''] else [encode label]
           | [] \<Rightarrow> [encode label]) @
          [''</a>''])"

definition MentionText_getHtml ::
  "Session \<Rightarrow> MentionText_fields \<Rightarrow> string gen \<times> MentionText_fields" where
  "MentionText_getHtml session m =
     (case getLabel session m of
        (Inl e, m1) \<Rightarrow> (throws e, m1)
      | (Inr (Rejected e), m1) \<Rightarrow> (throws e, m1)
      | (Inr (Fulfilled label), m1) \<Rightarrow>
          (case getActor_await session m1 of
             (Inl e, m2) \<Rightarrow> (throws e, m2)
           | (Inr (Rejected e), m2) \<Rightarrow> (throws e, m2)
           | (Inr (Fulfilled actor), m2) \<Rightarrow> (yields (mention_html label actor), m2)))"

definition mention_tags :: "string \<Rightarrow> Object option \<Rightarrow> Tag list" where
  "mention_tags label actor =
     (case actor of Some (ActorObject a) \<Rightarrow> [Mention label (actor_id a)] | _ \<Rightarrow> [])"

definition MentionText_getTags ::
  "Session \<Rightarrow> MentionText_fields \<Rightarrow> Tag gen \<times> MentionText_fields" where
  "MentionText_getTags session m =
     (case getLabel session m of
        (Inl e, m1) \<Rightarrow> (throws e, m1)
      | (Inr (Rejected e), m1) \<Rightarrow> (throws e, m1)
      | (Inr (Fulfilled label), m1) \<Rightarrow>
          (case getActor_await session m1 of
             (Inl e, m2) \<Rightarrow> (throws e, m2)
           | (Inr (Rejected e), m2) \<Rightarrow> (throws e, m2)
           | (Inr (Fulfilled actor), m2) \<Rightarrow> (yields (mention_tags label actor), m2)))"

definition MentionText_getCachedObjects :: "MentionText_fields \<Rightarrow> Object list" where
  "MentionText_getCachedObjects m = (case cachedObject m of None \<Rightarrow> [] | Some obj \<Rightarrow> [obj])"

text \<open>
  The function \<^verbatim>\<open>mention\<close>, one definition per overload. \<^verbatim>\<open>lookup\<close> is the resolver
  that the three deferred forms share: the bot itself is answered by the session, every
  other reference by the document loader and \<^verbatim>\<open>lookupObject\<close>. It is an \<^verbatim>\<open>async\<close>
  function, so every call of it returns a promise; so does each branch of the two
  resolvers of a label.
\<close>

definition actor_object :: "Actor promise \<Rightarrow> Object option promise" where
  "actor_object p = (case p of Fulfilled a \<Rightarrow> Fulfilled (Some (ActorObject a)) | Rejected e \<Rightarrow> Rejected e)"

definition lookup :: "bool \<Rightarrow> string \<Rightarrow> Session \<Rightarrow> Object option promise" where
  "lookup is_self reference session =
     (if is_self then actor_object (getActor session)
      else (case getDocumentLoader session of
              Rejected e \<Rightarrow> Rejected e
            | Fulfilled loader \<Rightarrow> lookupObject session reference))"

definition mention_label_actor :: "string \<Rightarrow> actor_ref \<Rightarrow> Text" where
  "mention_label_actor a b =
     MentionText (MentionText_new (LabelString a)
       (case b of
          RefActor actor \<Rightarrow> ActorValue actor
        | RefUrl u \<Rightarrow> ActorResolver (\<lambda>session. Inr (lookup (actorId session = u) u session))))"

definition mention_handle :: "string \<Rightarrow> Text" where
  "mention_handle a =
     MentionText (MentionText_new (LabelString a)
       (ActorResolver (\<lambda>session. Inr (lookup (actorHandle session = a) a session))))"

definition mention_actor :: "Actor \<Rightarrow> Text" where
  "mention_actor a =
     MentionText (MentionText_new
       (LabelResolver (\<lambda>session.
          Inr (if actor_id a = Some (actorId session) then Fulfilled (actorHandle session)
               else getActorHandle session (RefActor a))))
       (ActorValue a))"


subsection \<open>\<^verbatim>\<open>CustomEmojiText\<close>\<close>

definition getEmoji :: "Session \<Rightarrow> emoji_source \<Rightarrow> Emoji" where
  "getEmoji session e = (case e of EmojiResolver f \<Rightarrow> f session | EmojiValue v \<Rightarrow> v)"

text \<open>
  The zero-width space U+200B is the one code unit of the source above U+00FF. It
  stands here as the three bytes of its UTF-8 form; nothing below looks inside it.
\<close>

definition ZWSP :: string where
  "ZWSP = [CHR 0xE2, CHR 0x80, CHR 0x8B]"

definition CustomEmojiText_getHtml :: "Session \<Rightarrow> emoji_source \<Rightarrow> string gen" where
  "CustomEmojiText_getHtml session e =
     (case emoji_name (getEmoji session e) of
        None \<Rightarrow> yields []
      | Some name \<Rightarrow> yields [ZWSP, encode name, ZWSP])"

section \<open>\<^verbatim>\<open>MarkdownText\<close>\<close>

text \<open>The scratch record of the two discovery renders of the constructor.\<close>

definition discovery_env :: MarkdownEnv where
  "discovery_env =
     \<lparr> env_mentions = [], env_hashtags = [], env_origin = ''http://localhost'', env_actors = None \<rparr>"

text \<open>
  The callbacks that the constructor registers with the mention plug-in. The label is
  \<^verbatim>\<open>toFullHandle\<close> of the plug-in's package, a parameter here.
\<close>

definition mention_options :: "(string \<Rightarrow> string) \<Rightarrow> plugin_options" where
  "mention_options toFullHandle =
     \<lparr> hook_link = (\<lambda>handle env.
         case (case env of None \<Rightarrow> None | Some e \<Rightarrow> env_actors e) of
           None \<Rightarrow> Inr (Some (''acct:'' @ handle))
         | Some actors \<Rightarrow> Inr (map_of actors handle)),
       hook_linkAttributes = (\<lambda>handle env.
         [(''translate'', ''no''), (''class'', ''h-card u-url mention''), (''target'', ''_blank'')]),
       hook_label = (\<lambda>handle env. toFullHandle handle) \<rparr>"

text \<open>
  The callbacks that the constructor registers with the hashtag plug-in.
  \<open>URL_with_base\<close> stands for \<^verbatim>\<open>new URL(input, base)\<close> of the platform, with \<open>None\<close> for a
  base that is \<^verbatim>\<open>undefined\<close>: the \<^verbatim>\<open>href\<close> of the resolved URL, or nothing where the
  constructor throws a \<^verbatim>\<open>TypeError\<close>. The base of the link is \<^verbatim>\<open>env.origin\<close>, which is
  \<^verbatim>\<open>undefined\<close> on the empty object of a render without a record.
\<close>

definition hashtag_options :: "(string \<Rightarrow> string option \<Rightarrow> url option) \<Rightarrow> plugin_options" where
  "hashtag_options URL_with_base =
     \<lparr> hook_link = (\<lambda>hashtag env.
         let tag = toLowerCase (drop 1 hashtag)
         in case URL_with_base (''/tags/'' @ encodeURIComponent tag)
                   (case env of None \<Rightarrow> None | Some e \<Rightarrow> Some (env_origin e)) of
              None \<Rightarrow> Inl TypeError
            | Some u \<Rightarrow> Inr (Some u)),
       hook_linkAttributes = (\<lambda>hashtag env.
         [(''class'', ''mention hashtag''), (''rel'', ''tag''), (''target'', ''_blank'')]),
       hook_label = (\<lambda>hashtag env. ''#<span>'' @ drop 1 hashtag @ ''</span>'') \<rparr>"

text \<open>
  The constructor. \<open>MarkdownIt\<close> is the factory of the external parser: it maps a
  configuration to the \<^verbatim>\<open>render\<close> of the instance so configured. The mention plug-in is
  registered before the hashtag plug-in, each followed by its discovery render on a new
  scratch record, and an error of a render leaves the constructor.
\<close>

definition MarkdownText_new ::
  "(MarkdownIt_config \<Rightarrow> MarkdownIt) \<Rightarrow> (string \<Rightarrow> string option \<Rightarrow> url option) \<Rightarrow>
   (string \<Rightarrow> string) \<Rightarrow> string \<Rightarrow> MarkdownTextOptions \<Rightarrow> err + MarkdownText_fields" where
  "MarkdownText_new MarkdownIt URL_with_base toFullHandle content options =
     (let md0 = \<lparr> html = False,
                  linkify = (case opt_linkify options of None \<Rightarrow> True | Some b \<Rightarrow> b),
                  mention_plugin = None, hashtag_plugin = None \<rparr>;
          with_mentions = (case opt_mentions options of None \<Rightarrow> True | Some b \<Rightarrow> b);
          with_hashtags = (case opt_hashtags options of None \<Rightarrow> True | Some b \<Rightarrow> b);
          md1 = (if with_mentions
                 then md0\<lparr>mention_plugin := Some (mention_options toFullHandle)\<rparr> else md0);
          md2 = (if with_hashtags
                 then md1\<lparr>hashtag_plugin := Some (hashtag_options URL_with_base)\<rparr> else md1)
      in case (if with_mentions
               then (case MarkdownIt md1 content (Some discovery_env) of
                       Inl e \<Rightarrow> Inl e
                     | Inr (h, handles, hashtags) \<Rightarrow> Inr (Some (env_mentions discovery_env @ handles)))
               else Inr None) of
           Inl e \<Rightarrow> Inl e
         | Inr mentions \<Rightarrow>
             (case (if with_hashtags
                    then (case MarkdownIt md2 content (Some discovery_env) of
                            Inl e \<Rightarrow> Inl e
                          | Inr (h, handles, hashtags) \<Rightarrow>
                              Inr (Some (env_hashtags discovery_env @ hashtags)))
                    else Inr None) of
                Inl e \<Rightarrow> Inl e
              | Inr hashtags \<Rightarrow>
                  Inr \<lparr> md_content = content, markdownIt = MarkdownIt md2,
                        md_mentions = mentions, md_hashtags = hashtags, md_actors = None \<rparr>))"

text \<open>\<^verbatim>\<open>record[key] = value\<close> on a record in insertion order.\<close>

definition record_set :: "(string \<times> 'a) list \<Rightarrow> string \<Rightarrow> 'a \<Rightarrow> (string \<times> 'a) list" where
  "record_set r k v =
     (if k \<in> fst ` set r then map (\<lambda>(k', v'). if k' = k then (k', v) else (k', v')) r
      else r @ [(k, v)])"

definition fromEntries :: "(string \<times> 'a) list \<Rightarrow> (string \<times> 'a) list" where
  "fromEntries es = foldl (\<lambda>r (k, v). record_set r k v) [] es"

text \<open>\<^verbatim>\<open>Promise.all\<close>: every value, or a rejection (the first one in the order of the list).\<close>

fun promise_all :: "'a promise list \<Rightarrow> 'a list promise" where
  "promise_all [] = Fulfilled []"
| "promise_all (p # ps) =
     (case p of
        Rejected e \<Rightarrow> Rejected e
      | Fulfilled x \<Rightarrow>
          (case promise_all ps of Rejected e \<Rightarrow> Rejected e | Fulfilled xs \<Rightarrow> Fulfilled (x # xs)))"

text \<open>The loop of \<^verbatim>\<open>#getMentionedActors\<close> that fills the record of actors.\<close>

fun collect_actors ::
  "(string \<times> Object) list \<Rightarrow> string list \<Rightarrow> Object option list \<Rightarrow> (string \<times> Object) list" where
  "collect_actors actors (m # ms) (object # objects) =
     collect_actors (case object of None \<Rightarrow> actors | Some obj \<Rightarrow> record_set actors m obj) ms objects"
| "collect_actors actors ms objects = actors"

definition getMentionedActors ::
  "Session \<Rightarrow> MarkdownText_fields \<Rightarrow> (string \<times> Object) list promise \<times> MarkdownText_fields" where
  "getMentionedActors session md =
     (case md_mentions md of
        None \<Rightarrow> (Fulfilled [], md)
      | Some mentions \<Rightarrow>
          (case md_actors md of
             Some actors \<Rightarrow> (Fulfilled actors, md)
           | None \<Rightarrow>
               (case getDocumentLoader session of
                  Rejected e \<Rightarrow> (Rejected e, md)
                | Fulfilled loader \<Rightarrow>
                    (case promise_all
                            (map (\<lambda>m. if m = actorHandle session then actor_object (getActor session)
                                       else lookupObject session m) mentions) of
                       Rejected e \<Rightarrow> (Rejected e, md)
                     | Fulfilled objects \<Rightarrow>
                         (let actors = collect_actors [] mentions objects
                          in (Fulfilled actors, md\<lparr>md_actors := Some actors\<rparr>))))))"

text \<open>The link of an actor in \<^verbatim>\<open>MarkdownText.getHtml\<close>: its URL, else its identifier.\<close>

definition actor_href :: "Actor \<Rightarrow> url option" where
  "actor_href a =
     (case (case actor_url a of NoUrl \<Rightarrow> None | UrlValue u \<Rightarrow> Some u | LinkValue h \<Rightarrow> h) of
        Some u \<Rightarrow> Some u
      | None \<Rightarrow> actor_id a)"

definition actor_links :: "(string \<times> Object) list \<Rightarrow> (string \<times> string) list" where
  "actor_links actors =
     fromEntries (List.map_filter
       (\<lambda>(handle, obj). case obj of
            ActorObject a \<Rightarrow> (case actor_href a of Some u \<Rightarrow> Some (handle, u) | None \<Rightarrow> None)
          | OtherObject x \<Rightarrow> None) actors)"

definition MarkdownText_getHtml ::
  "Session \<Rightarrow> MarkdownText_fields \<Rightarrow> string gen \<times> MarkdownText_fields" where
  "MarkdownText_getHtml session md =
     (case md_mentions md of
        None \<Rightarrow>
          (case markdownIt md (md_content md) None of
             Inl e \<Rightarrow> (throws e, md)
           | Inr (h, found) \<Rightarrow> (yields [h], md))
      | Some mentions \<Rightarrow>
          (case getMentionedActors session md of
             (Rejected e, md') \<Rightarrow> (throws e, md')
           | (Fulfilled actors, md') \<Rightarrow>
               (case markdownIt md' (md_content md')
                       (Some \<lparr> env_mentions = [], env_hashtags = [], env_origin = origin session,
                               env_actors = Some (actor_links actors) \<rparr>) of
                  Inl e \<Rightarrow> (throws e, md')
                | Inr (h, found) \<Rightarrow> (yields [h], md'))))"

definition markdown_mention_tags :: "(string \<times> Object) list \<Rightarrow> Tag list" where
  "markdown_mention_tags actors =
     List.map_filter
       (\<lambda>(handle, obj). case obj of
            ActorObject a \<Rightarrow>
              (case actor_id a of Some i \<Rightarrow> Some (Mention handle (Some i)) | None \<Rightarrow> None)
          | OtherObject x \<Rightarrow> None) actors"

definition markdown_hashtag_tag :: "Session \<Rightarrow> string \<Rightarrow> Tag" where
  "markdown_hashtag_tag session token =
     (let tag = toLowerCase (drop 1 token)
      in Hashtag (CHR ''#'' # tag) (''/tags/'' @ encodeURIComponent tag) (origin session))"

definition MarkdownText_getTags ::
  "Session \<Rightarrow> MarkdownText_fields \<Rightarrow> Tag gen \<times> MarkdownText_fields" where
  "MarkdownText_getTags session md =
     (case md_mentions md of
        None \<Rightarrow> (yields [], md)
      | Some mentions \<Rightarrow>
          (case getMentionedActors session md of
             (Rejected e, md') \<Rightarrow> (throws e, md')
           | (Fulfilled actors, md') \<Rightarrow>
               (yields (markdown_mention_tags actors @
                        (case md_hashtags md' of
                           None \<Rightarrow> []
                         | Some hashtags \<Rightarrow> map (markdown_hashtag_tag session) hashtags)),
                md')))"

definition MarkdownText_getCachedObjects :: "MarkdownText_fields \<Rightarrow> Object list" where
  "MarkdownText_getCachedObjects md = (case md_actors md of None \<Rightarrow> [] | Some actors \<Rightarrow> map snd actors)"

definition markdown ::
  "(MarkdownIt_config \<Rightarrow> MarkdownIt) \<Rightarrow> (string \<Rightarrow> string option \<Rightarrow> url option) \<Rightarrow>
   (string \<Rightarrow> string) \<Rightarrow> string \<Rightarrow> MarkdownTextOptions \<Rightarrow> err + Text" where
  "markdown MarkdownIt URL_with_base toFullHandle content options =
     (case MarkdownText_new MarkdownIt URL_with_base toFullHandle content options of
        Inl e \<Rightarrow> Inl e
      | Inr md \<Rightarrow> Inr (MarkdownText md))"

section \<open>Decorators and the link\<close>

text \<open>A constructor argument that is a string or a text tree.\<close>

datatype text_arg = ArgString string | ArgText Text

definition as_text :: "text_arg \<Rightarrow> Text" where
  "as_text a = (case a of ArgString s \<Rightarrow> PlainText s | ArgText t \<Rightarrow> t)"

definition StrongText_new :: "text_arg \<Rightarrow> Text" where
  "StrongText_new a = StrongText (as_text a)"

definition EmText_new :: "text_arg \<Rightarrow> Text" where
  "EmText_new a = EmText (as_text a)"

definition CodeText_new :: "text_arg \<Rightarrow> Text" where
  "CodeText_new a = CodeText (as_text a)"

definition strong :: "text_arg \<Rightarrow> Text" where
  "strong a = StrongText_new a"

definition em :: "text_arg \<Rightarrow> Text" where
  "em a = EmText_new a"

definition code :: "text_arg \<Rightarrow> Text" where
  "code a = CodeText_new a"

definition customEmoji :: "emoji_source \<Rightarrow> Text" where
  "customEmoji e = CustomEmojiText e"

text \<open>
  A link target is a URL object or a string. \<open>URL\<close> stands for \<^verbatim>\<open>new URL(s)\<close> of the
  platform on a string: the parsed URL, or nothing where the constructor throws a
  \<^verbatim>\<open>TypeError\<close>, which it does exactly on a string that is not an absolute URL.
\<close>

datatype href_arg = HrefUrl url | HrefString string

definition LinkText_new :: "(string \<Rightarrow> url option) \<Rightarrow> text_arg \<Rightarrow> href_arg \<Rightarrow> err + Text" where
  "LinkText_new URL label href =
     (case href of
        HrefString s \<Rightarrow>
          (case URL s of None \<Rightarrow> Inl TypeError | Some u \<Rightarrow> Inr (LinkText (as_text label) u))
      | HrefUrl u \<Rightarrow> Inr (LinkText (as_text label) u))"

text \<open>The function \<^verbatim>\<open>link\<close>: with a label and a target, and with a target only.\<close>

definition link :: "(string \<Rightarrow> url option) \<Rightarrow> text_arg \<Rightarrow> href_arg \<Rightarrow> err + Text" where
  "link URL label href = LinkText_new URL label href"

definition link_url :: "(string \<Rightarrow> url option) \<Rightarrow> href_arg \<Rightarrow> err + Text" where
  "link_url URL target =
     LinkText_new URL (ArgString (case target of HrefUrl u \<Rightarrow> u | HrefString s \<Rightarrow> s)) target"

section \<open>\<^verbatim>\<open>TemplatedText\<close>\<close>

text \<open>An interpolated value, and the node the constructor makes of it.\<close>

datatype interpolation = IText Text | IUrl url | IActor Actor | IEmoji Emoji | IOther string

definition coerce :: "interpolation \<Rightarrow> Text" where
  "coerce v =
     (case v of
        IText t \<Rightarrow> t
      | IUrl u \<Rightarrow> LinkText (PlainText u) u
      | IActor a \<Rightarrow> mention_actor a
      | IEmoji e \<Rightarrow> customEmoji (EmojiValue e)
      | IOther s \<Rightarrow> PlainText s)"

definition TemplatedText_new :: "string list \<Rightarrow> interpolation list \<Rightarrow> Text" where
  "TemplatedText_new strings vals = TemplatedText strings (map coerce vals)"

datatype paraState = opened | closed

text \<open>The loop over the lines of one paragraph chunk; \<open>l\<close> counts the lines written.\<close>

fun lines_loop :: "paraState \<Rightarrow> nat \<Rightarrow> string list \<Rightarrow> string list \<times> paraState" where
  "lines_loop st l [] = ([], st)"
| "lines_loop st l (line # lines) =
     (if trim line = [] then lines_loop st l lines
      else (let opening = (l < 1 \<and> st = closed)
            in case lines_loop (if opening then opened else st) (Suc l) lines of
                 (out, st') \<Rightarrow>
                   ((if opening then [''<p>''] else []) @
                    (if 0 < l then [''<br>''] else []) @ [encode line] @ out, st')))"

text \<open>The loop over the chunks of one literal; \<open>p\<close> counts the chunks done.\<close>

fun paragraphs_loop :: "paraState \<Rightarrow> nat \<Rightarrow> string list \<Rightarrow> string list \<times> paraState" where
  "paragraphs_loop st p [] = ([], st)"
| "paragraphs_loop st p (para # paragraphs) =
     (let close = (0 < p \<and> st = opened);
          st1 = (if close then closed else st)
      in case lines_loop st1 0 (split_on LF para) of
           (out, st2) \<Rightarrow>
             (case paragraphs_loop st2 (Suc p) paragraphs of
                (rest, st3) \<Rightarrow> ((if close then [''</p>''] else []) @ out @ rest, st3)))"

text \<open>
  The outer loop of \<^verbatim>\<open>TemplatedText.getHtml\<close> over the literals. A value comes with its
  \<^verbatim>\<open>type\<close>, the node itself, and what \<^verbatim>\<open>value.getHtml(session)\<close> does on it: its output and
  the node afterwards. The result is the output of the whole loop and the values
  afterwards; a value behind a throwing one is not rendered and stays as it is.
\<close>

fun strings_loop ::
  "paraState \<Rightarrow> string list \<Rightarrow> (kind \<times> 'n \<times> string gen \<times> 'n) list \<Rightarrow> string gen \<times> 'n list" where
  "strings_loop st [] vals = (yields (if st = opened then [''</p>''] else []), map (fst \<circ> snd) vals)"
| "strings_loop st (s # strings) vals =
     (case paragraphs_loop st 0 (split_paragraphs s) of
        (out1, st1) \<Rightarrow>
          (case vals of
             [] \<Rightarrow> (case strings_loop st1 strings [] of (g, vs) \<Rightarrow> (gen_seq (yields out1) g, vs))
           | (k, v, gv, v') # rest \<Rightarrow>
               (let close = (k = block \<and> st1 = opened);
                    opening = (k = inline \<and> st1 = closed);
                    out2 = (if close then [''</p>''] else if opening then [''<p>''] else []);
                    st2 = (if close then closed else if opening then opened else st1)
                in case snd gv of
                     Some e \<Rightarrow> (gen_seq (yields (out1 @ out2)) gv, v' # map (fst \<circ> snd) rest)
                   | None \<Rightarrow>
                       (case strings_loop st2 strings rest of
                          (g, vs) \<Rightarrow> (gen_seq (yields (out1 @ out2)) (gen_seq gv g), v' # vs)))))"

text \<open>The loop of \<^verbatim>\<open>TemplatedText.getTags\<close>, on the values with what \<^verbatim>\<open>getTags\<close> does on each.\<close>

fun tags_loop :: "('n \<times> Tag gen \<times> 'n) list \<Rightarrow> Tag gen \<times> 'n list" where
  "tags_loop [] = (yields [], [])"
| "tags_loop ((v, g, v') # rest) =
     (case snd g of
        Some e \<Rightarrow> (g, v' # map fst rest)
      | None \<Rightarrow> (case tags_loop rest of (g', vs) \<Rightarrow> (gen_seq g g', v' # vs)))"

section \<open>The three methods of the contract\<close>

text \<open>
  \<^verbatim>\<open>getHtml\<close> and \<^verbatim>\<open>getTags\<close> run to the end: what the generator yields and throws, and
  the tree afterwards.
\<close>

fun getHtml :: "Session \<Rightarrow> Text \<Rightarrow> string gen \<times> Text" where
  "getHtml session (PlainText t) = (PlainText_getHtml t, PlainText t)"
| "getHtml session (MentionText m) =
     (case MentionText_getHtml session m of (g, m') \<Rightarrow> (g, MentionText m'))"
| "getHtml session (HashtagText tag) = (HashtagText_getHtml session tag, HashtagText tag)"
| "getHtml session (StrongText t) =
     (case getHtml session t of
        (g, t') \<Rightarrow> (gen_seq (yields [''<strong>'']) (gen_seq g (yields [''</strong>''])), StrongText t'))"
| "getHtml session (EmText t) =
     (case getHtml session t of
        (g, t') \<Rightarrow> (gen_seq (yields [''<em>'']) (gen_seq g (yields [''</em>''])), EmText t'))"
| "getHtml session (LinkText label href) =
     (case getHtml session label of
        (g, label') \<Rightarrow>
          (gen_seq (yields [''<a href=\"'', encode href, ''\" target=\"_blank\">''])
             (gen_seq g (yields [''</a>''])), LinkText label' href))"
| "getHtml session (CodeText t) =
     (case getHtml session t of
        (g, t') \<Rightarrow> (gen_seq (yields [''<code>'']) (gen_seq g (yields [''</code>''])), CodeText t'))"
| "getHtml session (CustomEmojiText e) = (CustomEmojiText_getHtml session e, CustomEmojiText e)"
| "getHtml session (TemplatedText strings vals) =
     (case strings_loop closed strings (map (\<lambda>v. (text_type v, v, getHtml session v)) vals) of
        (g, vals') \<Rightarrow> (g, TemplatedText strings vals'))"
| "getHtml session (MarkdownText md) =
     (case MarkdownText_getHtml session md of (g, md') \<Rightarrow> (g, MarkdownText md'))"

fun getTags :: "Session \<Rightarrow> Text \<Rightarrow> Tag gen \<times> Text" where
  "getTags session (PlainText t) = (yields [], PlainText t)"
| "getTags session (MentionText m) =
     (case MentionText_getTags session m of (g, m') \<Rightarrow> (g, MentionText m'))"
| "getTags session (HashtagText tag) = (HashtagText_getTags session tag, HashtagText tag)"
| "getTags session (StrongText t) = (case getTags session t of (g, t') \<Rightarrow> (g, StrongText t'))"
| "getTags session (EmText t) = (case getTags session t of (g, t') \<Rightarrow> (g, EmText t'))"
| "getTags session (LinkText label href) =
     (case getTags session label of (g, label') \<Rightarrow> (g, LinkText label' href))"
| "getTags session (CodeText t) = (case getTags session t of (g, t') \<Rightarrow> (g, CodeText t'))"
| "getTags session (CustomEmojiText e) = (yields [EmojiTag (getEmoji session e)], CustomEmojiText e)"
| "getTags session (TemplatedText strings vals) =
     (case tags_loop (map (\<lambda>v. (v, getTags session v)) vals) of
        (g, vals') \<Rightarrow> (g, TemplatedText strings vals'))"
| "getTags session (MarkdownText md) =
     (case MarkdownText_getTags session md of (g, md') \<Rightarrow> (g, MarkdownText md'))"

fun getCachedObjects :: "Text \<Rightarrow> Object list" where
  "getCachedObjects (PlainText t) = []"
| "getCachedObjects (MentionText m) = MentionText_getCachedObjects m"
| "getCachedObjects (HashtagText tag) = []"
| "getCachedObjects (StrongText t) = []"
| "getCachedObjects (EmText t) = []"
| "getCachedObjects (LinkText label href) = getCachedObjects label"
| "getCachedObjects (CodeText t) = []"
| "getCachedObjects (CustomEmojiText e) = []"
| "getCachedObjects (TemplatedText strings vals) = concat (map getCachedObjects vals)"
| "getCachedObjects (MarkdownText md) = MarkdownText_getCachedObjects md"

section \<open>The function \<^verbatim>\<open>mentions\<close>\<close>

text \<open>\<^verbatim>\<open>tag instanceof Mention && tag.href?.href === actor.href\<close>\<close>

fun tag_matches :: "url \<Rightarrow> Tag \<Rightarrow> bool" where
  "tag_matches href (Mention name (Some h)) = (h = href)"
| "tag_matches href tag = False"

text \<open>
  The \<^verbatim>\<open>for await\<close> loop over the tags that the tree yields (and the error it throws
  behind them, if any): what \<^verbatim>\<open>mentions\<close> returns or throws, and how many tags the loop
  has pulled from the generator.
\<close>

fun mentions_loop :: "url \<Rightarrow> Tag list \<Rightarrow> err option \<Rightarrow> (err + bool) \<times> nat" where
  "mentions_loop href [] None = (Inr False, 0)"
| "mentions_loop href [] (Some e) = (Inl e, 0)"
| "mentions_loop href (tag # tags) e =
     (if tag_matches href tag then (Inr True, 1)
      else (case mentions_loop href tags e of (r, n) \<Rightarrow> (r, Suc n)))"

definition mentions :: "Session \<Rightarrow> Text \<Rightarrow> actor_ref \<Rightarrow> (err + bool) \<times> nat" where
  "mentions session txt actor =
     (case (case actor of RefActor a \<Rightarrow> actor_id a | RefUrl u \<Rightarrow> Some u) of
        None \<Rightarrow> (Inr False, 0)
      | Some href \<Rightarrow> (case fst (getTags session txt) of (tags, e) \<Rightarrow> mentions_loop href tags e))"

section \<open>Concrete inputs\<close>

text \<open>A remote actor, and a session of a bot at \<^verbatim>\<open>https://example.com\<close> that can look it up.\<close>

definition example_actor :: Actor where
  "example_actor = \<lparr> actor_id = Some ''https://remote.example/users/alice'', actor_url = NoUrl \<rparr>"

definition example_session :: Session where
  "example_session =
     \<lparr> origin = ''https://example.com'',
       actorId = ''https://example.com/ap/actor/bot'',
       actorHandle = ''@bot@example.com'',
       getActor = Fulfilled \<lparr> actor_id = Some ''https://example.com/ap/actor/bot'', actor_url = NoUrl \<rparr>,
       getDocumentLoader = Fulfilled (),
       lookupObject =
         (\<lambda>r. if r = ''@alice@remote.example'' then Fulfilled (Some (ActorObject example_actor))
              else if r = ''@down@remote.example'' then Rejected (Err ''fetch failed'')
              else Fulfilled None),
       getActorHandle = (\<lambda>r. Fulfilled ''@alice@remote.example'') \<rparr>"

text \<open>
  Stand-ins for the external collaborators on the inputs of the examples. \<^verbatim>\<open>new URL\<close>
  accepts the strings with the scheme \<^verbatim>\<open>https\<close>; given a base that is an origin, it
  appends the input, a path, to it; \<^verbatim>\<open>toFullHandle\<close> leaves a full handle as it is.
\<close>

definition example_URL :: "string \<Rightarrow> url option" where
  "example_URL s = (if take 8 s = ''https://'' then Some s else None)"

definition example_URL_with_base :: "string \<Rightarrow> string option \<Rightarrow> url option" where
  "example_URL_with_base input base =
     (case base of
        None \<Rightarrow> example_URL input
      | Some b \<Rightarrow>
          if take 7 b = ''http://'' \<or> take 8 b = ''https://'' then Some (b @ input) else None)"

definition example_toFullHandle :: "string \<Rightarrow> string" where
  "example_toFullHandle handle = handle"

text \<open>
  The stand-in for the parser takes the source for one paragraph of words between
  blanks. A word that starts with \<^verbatim>\<open>@\<close> or \<^verbatim>\<open>#\<close> is a token of the plug-in for it, if that
  is registered. The parser then calls the \<^verbatim>\<open>link\<close> callback of the plug-in with the record
  that \<^verbatim>\<open>render\<close> was given: a throw of the callback leaves \<^verbatim>\<open>render\<close>, a target makes the
  token an anchor with the attributes and the label of the other two callbacks, and the
  token is pushed onto the record.
\<close>

definition example_token :: "plugin_options \<Rightarrow> MarkdownEnv option \<Rightarrow> string \<Rightarrow> err + string" where
  "example_token opts env w =
     (case hook_link opts w env of
        Inl e \<Rightarrow> Inl e
      | Inr None \<Rightarrow> Inr (encode w)
      | Inr (Some href) \<Rightarrow>
          Inr (''<a href=\"'' @ encode href @ ''\"'' @
               concat (map (\<lambda>(k, v). '' '' @ k @ ''=\"'' @ encode v @ ''\"'')
                         (hook_linkAttributes opts w env)) @
               ''>'' @ hook_label opts w env @ ''</a>''))"

fun example_words ::
  "MarkdownIt_config \<Rightarrow> MarkdownEnv option \<Rightarrow> string list \<Rightarrow>
   err + (string list \<times> string list \<times> string list)" where
  "example_words cfg env [] = Inr ([], [], [])"
| "example_words cfg env (w # ws) =
     (case (if take 1 w = ''@'' then mention_plugin cfg
            else if take 1 w = ''#'' then hashtag_plugin cfg
            else None) of
        None \<Rightarrow>
          (case example_words cfg env ws of
             Inl e \<Rightarrow> Inl e
           | Inr (hs, handles, hashtags) \<Rightarrow> Inr (encode w # hs, handles, hashtags))
      | Some opts \<Rightarrow>
          (case example_token opts env w of
             Inl e \<Rightarrow> Inl e
           | Inr h \<Rightarrow>
               (case example_words cfg env ws of
                  Inl e \<Rightarrow> Inl e
                | Inr (hs, handles, hashtags) \<Rightarrow>
                    Inr (h # hs,
                         (if take 1 w = ''@'' then w # handles else handles),
                         (if take 1 w = ''#'' then w # hashtags else hashtags)))))"

fun example_join :: "string list \<Rightarrow> string" where
  "example_join [] = []"
| "example_join [h] = h"
| "example_join (h # hs) = h @ '' '' @ example_join hs"

definition example_MarkdownIt :: "MarkdownIt_config \<Rightarrow> MarkdownIt" where
  "example_MarkdownIt cfg source env =
     (case example_words cfg env (split_on (CHR '' '') source) of
        Inl e \<Rightarrow> Inl e
      | Inr (hs, handles, hashtags) \<Rightarrow>
          Inr (''<p>'' @ example_join hs @ ''</p>'' @ [LF], handles, hashtags))"

definition mentions_off :: MarkdownTextOptions where
  "mentions_off = \<lparr> opt_mentions = Some False, opt_hashtags = None, opt_linkify = None \<rparr>"



section \<open>Notions of the statements\<close>

subsection \<open>Rendering with the parser alone\<close>

text \<open>
  The external parser invoked directly, in the words of the specification: the parser
  with the configuration \<^verbatim>\<open>{html: false, linkify}\<close> and no extension, and its \<^verbatim>\<open>render\<close>
  called on the source.
\<close>

definition plain_parser :: "(MarkdownIt_config \<Rightarrow> MarkdownIt) \<Rightarrow> bool \<Rightarrow> MarkdownIt" where
  "plain_parser MarkdownIt lf =
     MarkdownIt \<lparr> html = False, linkify = lf, mention_plugin = None, hashtag_plugin = None \<rparr>"

definition render_directly :: "MarkdownIt \<Rightarrow> string \<Rightarrow> string gen" where
  "render_directly md source =
     (case md source None of Inl e \<Rightarrow> throws e | Inr (h, found) \<Rightarrow> yields [h])"

subsection \<open>Trees that have not been rendered\<close>



subsection \<open>Calls on one mention\<close>



















subsection \<open>Paragraph markers\<close>

text \<open>The whole output of a generator as one string, and the occurrences of a marker in it.\<close>

definition html_of :: "string gen \<Rightarrow> string" where
  "html_of g = concat (fst g)"

fun count_sub :: "string \<Rightarrow> string \<Rightarrow> nat" where
  "count_sub pat [] = 0"
| "count_sub pat (c # cs) = (if prefix pat (c # cs) then 1 else 0) + count_sub pat cs"

text \<open>
  The paragraph markers of a string in the order in which they occur (\<open>True\<close> for
  \<^verbatim>\<open><p>\<close>, \<open>False\<close> for \<^verbatim>\<open></p>\<close>), the two-state automaton that accepts the sequences in
  which they alternate, and the strings whose markers open and close in pairs that
  neither nest nor overlap. A string has a safe end if no marker can begin in it and
  end in what follows.
\<close>

fun markers :: "string \<Rightarrow> bool list" where
  "markers [] = []"
| "markers (c # cs) =
     (if prefix ''<p>'' (c # cs) then True # markers cs
      else if prefix ''</p>'' (c # cs) then False # markers cs
      else markers cs)"

fun run_markers :: "paraState \<Rightarrow> bool list \<Rightarrow> paraState option" where
  "run_markers st [] = Some st"
| "run_markers st (True # ms) = (if st = closed then run_markers opened ms else None)"
| "run_markers st (False # ms) = (if st = opened then run_markers closed ms else None)"

definition well_nested :: "string \<Rightarrow> bool" where
  "well_nested h \<longleftrightarrow> run_markers closed (markers h) = Some closed"

definition safe_end :: "string \<Rightarrow> bool" where
  "safe_end h \<longleftrightarrow> \<not> suffix ''<'' h \<and> \<not> suffix ''<p'' h \<and> \<not> suffix ''</'' h \<and> \<not> suffix ''</p'' h"

text \<open>
  What the outer loop needs of the HTML of an interpolated value: it has a safe end, an
  inline value has no paragraph marker, and the markers of a block value are well
  nested.
\<close>

definition child_ok :: "kind \<Rightarrow> string gen \<Rightarrow> bool" where
  "child_ok k g \<longleftrightarrow>
     safe_end (html_of g) \<and>
     (if k = block then well_nested (html_of g) else markers (html_of g) = [])"

text \<open>A chunk with at least one line that is not blank.\<close>

definition has_text :: "string \<Rightarrow> bool" where
  "has_text chunk = list_ex (\<lambda>line. trim line \<noteq> []) (split_on LF chunk)"

text \<open>A string without paragraph markers and with a safe end.\<close>

definition plain :: "string \<Rightarrow> bool" where
  "plain h \<longleftrightarrow> markers h = [] \<and> safe_end h"

text \<open>
  The trees on which no node injects markup of its own making: no hashtag holds the
  character \<^verbatim>\<open><\<close>, the decorators and links wrap inline nodes (as their types
  demand), and the output of the parser of a Markdown node is well nested with a safe
  end.
\<close>

fun paragraph_safe :: "Session \<Rightarrow> Text \<Rightarrow> bool" where
  "paragraph_safe session (HashtagText tag) = (CHR ''<'' \<notin> set tag)"
| "paragraph_safe session (StrongText t) = (text_type t = inline \<and> paragraph_safe session t)"
| "paragraph_safe session (EmText t) = (text_type t = inline \<and> paragraph_safe session t)"
| "paragraph_safe session (CodeText t) = (text_type t = inline \<and> paragraph_safe session t)"
| "paragraph_safe session (LinkText t href) = (text_type t = inline \<and> paragraph_safe session t)"
| "paragraph_safe session (TemplatedText strings vals) = list_all (paragraph_safe session) vals"
| "paragraph_safe session (MarkdownText md) =
     (snd (fst (MarkdownText_getHtml session md)) = None \<longrightarrow>
      child_ok block (fst (MarkdownText_getHtml session md)))"
| "paragraph_safe session t = True"

text \<open>
  The example of the documentation, \<^verbatim>\<open>text`Hello, <${em("World")}>!\n\nGoodbye!`\<close>: two
  paragraphs.
\<close>

definition hello_world :: Text where
  "hello_world =
     TemplatedText_new [''Hello, <'', ''>!'' @ [LF, LF] @ ''Goodbye!'']
       [IText (em (ArgString ''World''))]"

section \<open>Hashtags\<close>

lemma normalise_foo_bar:
  "collapse_ws False (trim (strip_hash (trimStart ''  Foo Bar  ''))) = ''Foo Bar''"
  by code_simp

lemma hashtag_new_foo_bar: "hashtag ''  Foo Bar  '' = HashtagText ''Foo Bar''"
  by (simp only: hashtag_def HashtagText_new_def normalise_foo_bar)

lemma segment_foo_bar: "encode (encodeURIComponent (toLowerCase ''Foo Bar'')) = ''foo%20bar''"
  by code_simp

text \<open>
  Claim C5, as the code has it. For every session, \<^verbatim>\<open>hashtag("  Foo Bar  ")\<close> renders the
  seven fragments below: the visible label is \<^verbatim>\<open>Foo Bar\<close> in its original casing, and
  the path segment behind \<^verbatim>\<open>/tags/\<close> is the percent-encoded lower-case name
  \<^verbatim>\<open>foo%20bar\<close>.
\<close>

theorem hashtag_foo_bar_html:
  "fst (getHtml session (hashtag ''  Foo Bar  '')) =
     yields [''<a href=\"'', encode (origin session), ''/tags/'', ''foo%20bar'',
             ''\" class=\"mention hashtag\" rel=\"tag\" target=\"_blank\">#<span>'',
             ''Foo Bar'', ''</span></a>'']"
  by (simp add: hashtag_new_foo_bar HashtagText_getHtml_def segment_foo_bar)

text \<open>
  Claim C5 as stated fails: the path segment that \<^verbatim>\<open>getHtml\<close> emits (its fourth
  fragment) is not the hyphenated slug \<^verbatim>\<open>foo-bar\<close>.
\<close>

theorem hashtag_foo_bar_not_hyphenated:
  "fst (fst (getHtml example_session (hashtag ''  Foo Bar  ''))) ! 3 \<noteq> ''foo-bar''"
  by (simp add: hashtag_new_foo_bar HashtagText_getHtml_def segment_foo_bar yields_def)

section \<open>Decorators\<close>

lemma decorators_forward_tags:
  "fst (getTags session (strong (ArgText t))) = fst (getTags session t) \<and>
   fst (getTags session (em (ArgText t))) = fst (getTags session t) \<and>
   fst (getTags session (code (ArgText t))) = fst (getTags session t)"
  by (simp add: strong_def em_def code_def StrongText_new_def EmText_new_def CodeText_new_def
      as_text_def split: prod.splits)

text \<open>
  Claim C6, at the input where the code departs from it. A mention of a literal actor
  holds that actor as its cached object, but \<^verbatim>\<open>strong\<close>, \<^verbatim>\<open>em\<close> and \<^verbatim>\<open>code\<close> around
  it return no cached object at all: \<^verbatim>\<open>getCachedObjects\<close> of the three decorators is
  the constant empty array, not the result of the wrapped child.
\<close>

theorem decorators_drop_cached_objects:
  "getCachedObjects (mention_label_actor l (RefActor a)) = [ActorObject a] \<and>
   getCachedObjects (strong (ArgText (mention_label_actor l (RefActor a)))) = [] \<and>
   getCachedObjects (em (ArgText (mention_label_actor l (RefActor a)))) = [] \<and>
   getCachedObjects (code (ArgText (mention_label_actor l (RefActor a)))) = []"
  by (simp add: strong_def em_def code_def StrongText_new_def EmText_new_def CodeText_new_def
      as_text_def mention_label_actor_def MentionText_new_def MentionText_getCachedObjects_def)

section \<open>Links\<close>

text \<open>
  Claim C8. Where \<^verbatim>\<open>new URL\<close> rejects the target string (it is not an absolute URL), the
  constructor of \<^verbatim>\<open>LinkText\<close> and both forms of \<^verbatim>\<open>link\<close> throw the \<^verbatim>\<open>TypeError\<close>; where
  it accepts the string, and for a URL object, they return the link node; and the tags
  of a link node are the tags of its label.
\<close>

theorem link_requires_absolute_url:
  "(URL s = None \<longrightarrow>
      LinkText_new URL label (HrefString s) = Inl TypeError \<and>
      link URL label (HrefString s) = Inl TypeError \<and>
      link_url URL (HrefString s) = Inl TypeError) \<and>
   (URL s = Some u \<longrightarrow>
      LinkText_new URL label (HrefString s) = Inr (LinkText (as_text label) u) \<and>
      link URL label (HrefString s) = Inr (LinkText (as_text label) u) \<and>
      link_url URL (HrefString s) = Inr (LinkText (PlainText s) u)) \<and>
   LinkText_new URL label (HrefUrl u) = Inr (LinkText (as_text label) u) \<and>
   fst (getTags session (LinkText t u)) = fst (getTags session t)"
  by (simp add: LinkText_new_def link_def link_url_def as_text_def split: prod.splits)

theorem link_requires_absolute_url_witness:
  "example_URL ''/about'' = None \<and>
   link example_URL (ArgString ''About'') (HrefString ''/about'') = Inl TypeError \<and>
   example_URL ''https://example.com/'' = Some ''https://example.com/'' \<and>
   link example_URL (ArgText (hashtag ''Foo'')) (HrefString ''https://example.com/'')
     = Inr (LinkText (hashtag ''Foo'') ''https://example.com/'') \<and>
   fst (getTags example_session (LinkText (hashtag ''Foo'') ''https://example.com/''))
     = fst (getTags example_session (hashtag ''Foo''))"
  using link_requires_absolute_url [of example_URL "''/about''" "ArgString ''About''"
      "''https://example.com/''" example_session "hashtag ''Foo''"]
    link_requires_absolute_url [of example_URL "''https://example.com/''" "ArgText (hashtag ''Foo'')"
      "''https://example.com/''" example_session "hashtag ''Foo''"]
  by (simp add: example_URL_def as_text_def)

section \<open>Markdown\<close>

text \<open>
  With both extensions off the constructor registers no plug-in and renders nothing, so
  it returns; and \<^verbatim>\<open>getHtml\<close> then yields, in every session, what the plain parser renders
  on the source, and leaves the node as it was.
\<close>

lemma markdown_extensions_off_html:
  assumes "opt_mentions options = Some False" and "opt_hashtags options = Some False"
  shows "\<exists>t. markdown MarkdownIt URL_with_base toFullHandle content options = Inr t \<and>
             (\<forall>session. getHtml session t =
                (render_directly
                   (plain_parser MarkdownIt (case opt_linkify options of None \<Rightarrow> True | Some b \<Rightarrow> b))
                   content, t))"
  using assms
  by (simp add: markdown_def MarkdownText_new_def Let_def MarkdownText_getHtml_def
      render_directly_def plain_parser_def split: sum.splits prod.splits)

text \<open>
  The stand-in for the parser on the source \<^verbatim>\<open>Hi #foo\<close>: with the hashtag plug-in and a
  scratch record it renders the anchor of the hashtag and pushes the token; with the
  plug-in and no record, the \<^verbatim>\<open>link\<close> callback throws; without plug-ins it renders the
  words as they are.
\<close>

lemma hashtag_link_with_origin:
  "hook_link (hashtag_options example_URL_with_base) ''#foo'' (Some discovery_env) =
     Inr (Some ''http://localhost/tags/foo'')"
  "hook_link (hashtag_options example_URL_with_base) ''#foo''
     (Some \<lparr> env_mentions = [], env_hashtags = [], env_origin = ''https://example.com'',
             env_actors = Some [] \<rparr>) = Inr (Some ''https://example.com/tags/foo'')"
  by code_simp+

lemma hashtag_link_without_record:
  "hook_link (hashtag_options example_URL_with_base) ''#foo'' None = Inl TypeError"
  by code_simp

lemma example_MarkdownIt_hi_foo:
  "example_MarkdownIt
     \<lparr> html = False, linkify = True, mention_plugin = None,
       hashtag_plugin = Some (hashtag_options example_URL_with_base) \<rparr>
     ''Hi #foo'' (Some discovery_env) =
   Inr (''<p>Hi <a href=\"http://localhost/tags/foo\" class=\"mention hashtag\" rel=\"tag\" target=\"_blank\">#<span>foo</span></a></p>'' @ [LF],
        [], [''#foo''])"
  "example_MarkdownIt
     \<lparr> html = False, linkify = True, mention_plugin = None,
       hashtag_plugin = Some (hashtag_options example_URL_with_base) \<rparr>
     ''Hi #foo''
     (Some \<lparr> env_mentions = [], env_hashtags = [], env_origin = ''https://example.com'',
             env_actors = Some [] \<rparr>) =
   Inr (''<p>Hi <a href=\"https://example.com/tags/foo\" class=\"mention hashtag\" rel=\"tag\" target=\"_blank\">#<span>foo</span></a></p>'' @ [LF],
        [], [''#foo''])"
  "example_MarkdownIt
     \<lparr> html = False, linkify = True, mention_plugin = None,
       hashtag_plugin = Some (hashtag_options example_URL_with_base) \<rparr>
     ''Hi #foo'' None = Inl TypeError"
  "example_MarkdownIt
     \<lparr> html = False, linkify = True, mention_plugin = None, hashtag_plugin = None \<rparr>
     ''Hi #foo'' None = Inr (''<p>Hi #foo</p>'' @ [LF], [], [])"
  by code_simp+

lemma discovery_env_empty: "env_mentions discovery_env = []" "env_hashtags discovery_env = []"
  by (simp_all add: discovery_env_def)

lemma example_markdown_mentions_off:
  "MarkdownText_new example_MarkdownIt example_URL_with_base example_toFullHandle ''Hi #foo''
     mentions_off =
   Inr \<lparr> md_content = ''Hi #foo'',
         markdownIt = example_MarkdownIt
           \<lparr> html = False, linkify = True, mention_plugin = None,
             hashtag_plugin = Some (hashtag_options example_URL_with_base) \<rparr>,
         md_mentions = None, md_hashtags = Some [''#foo''], md_actors = None \<rparr>"
  by (simp add: MarkdownText_new_def mentions_off_def Let_def example_MarkdownIt_hi_foo
      discovery_env_empty)


text \<open>
  With the mention extension on, the handles are resolved once and the record of actors
  is kept: the tags of a Markdown node are the same whether or not it was rendered
  before, in the same session.
\<close>

lemma getMentionedActors_memo:
  "getMentionedActors session md = (Fulfilled actors, md') \<Longrightarrow> md_mentions md \<noteq> None \<Longrightarrow>
     getMentionedActors session' md' = (Fulfilled actors, md') \<and>
     md_hashtags md' = md_hashtags md \<and> md_mentions md' = md_mentions md"
  by (auto simp: getMentionedActors_def Let_def split: option.splits promise.splits)

lemma getMentionedActors_rejected:
  "getMentionedActors session md = (Rejected e, md') \<Longrightarrow> md' = md"
  by (auto simp: getMentionedActors_def Let_def split: option.splits promise.splits)

lemma markdown_tags_after_html:
  "fst (MarkdownText_getTags session (snd (MarkdownText_getHtml session md))) =
   fst (MarkdownText_getTags session md)"
proof (cases "md_mentions md")
  case None
  then show ?thesis
    by (simp add: MarkdownText_getHtml_def MarkdownText_getTags_def split: sum.splits prod.splits)
next
  case (Some ms)
  obtain p md' where g: "getMentionedActors session md = (p, md')"
    by (cases "getMentionedActors session md")
  show ?thesis
  proof (cases p)
    case (Fulfilled actors)
    with g Some getMentionedActors_memo [of session md actors md' session]
    show ?thesis
      by (auto simp: MarkdownText_getHtml_def MarkdownText_getTags_def
          split: sum.splits prod.splits)
  next
    case (Rejected e)
    with g Some getMentionedActors_rejected [of session md e md']
    show ?thesis
      by (auto simp: MarkdownText_getHtml_def MarkdownText_getTags_def
          split: sum.splits prod.splits)
  qed
qed

text \<open>
  Claim C3, at the input where the code departs from it. With \<^verbatim>\<open>mentions: false\<close> and the
  hashtag extension on, the constructor discovers the hashtag \<^verbatim>\<open>#foo\<close> of the source, but
  \<^verbatim>\<open>getTags\<close> returns at its first line (no list of mentions) and yields no
  \<^verbatim>\<open>Hashtag\<close> for it.
\<close>

theorem markdown_hashtags_lost_without_mentions:
  "\<exists>md. MarkdownText_new example_MarkdownIt example_URL_with_base example_toFullHandle
          ''Hi #foo'' mentions_off = Inr md \<and>
        md_hashtags md = Some [''#foo''] \<and>
        fst (getTags example_session (MarkdownText md)) = yields []"
  by (simp add: example_markdown_mentions_off MarkdownText_getTags_def)

section \<open>The function \<^verbatim>\<open>mentions\<close>, verified\<close>

lemma tag_matches_iff: "tag_matches href tag \<longleftrightarrow> (\<exists>name. tag = Mention name (Some href))"
  by (cases "(href, tag)" rule: tag_matches.cases) auto

lemma mentions_loop_true:
  "fst (mentions_loop href tags e) = Inr True \<longleftrightarrow> (\<exists>tag \<in> set tags. tag_matches href tag)"
  by (induction href tags e rule: mentions_loop.induct) (auto split: prod.splits)

text \<open>
  Claim C10. For an actor without an identifier, \<^verbatim>\<open>mentions\<close> returns \<^verbatim>\<open>false\<close> and pulls no
  tag from the tree. For a URL, or an actor with an identifier, it returns \<^verbatim>\<open>true\<close> if and
  only if one of the tags that the tree yields is a \<^verbatim>\<open>Mention\<close> whose \<^verbatim>\<open>href\<close> is that
  identifier.
\<close>

theorem mentions_spec:
  "(actor_id a = None \<longrightarrow> mentions session txt (RefActor a) = (Inr False, 0)) \<and>
   (actor = RefUrl href \<or> (actor = RefActor a \<and> actor_id a = Some href) \<longrightarrow>
      (fst (mentions session txt actor) = Inr True) =
      (\<exists>name. Mention name (Some href) \<in> set (fst (fst (getTags session txt)))))"
proof -
  have "fst (mentions_loop href tags e) = Inr True \<longleftrightarrow>
        (\<exists>name. Mention name (Some href) \<in> set tags)" for tags e
    unfolding mentions_loop_true by (auto simp: tag_matches_iff)
  then show ?thesis
    by (auto simp: mentions_def split: prod.splits)
qed

lemma example_alice_tags:
  "fst (getTags example_session (mention_handle ''@alice@remote.example'')) =
     yields [Mention ''@alice@remote.example'' (Some ''https://remote.example/users/alice'')]"
  by (simp add: mention_handle_def MentionText_new_def MentionText_getTags_def getLabel_def
      getActor_await_def getActor_start_def actor_then_def lookup_def example_session_def
      example_actor_def mention_tags_def Let_def)

theorem mentions_spec_witness:
  "mentions example_session (mention_handle ''@alice@remote.example'')
      (RefActor \<lparr> actor_id = None, actor_url = NoUrl \<rparr>) = (Inr False, 0) \<and>
   fst (mentions example_session (mention_handle ''@alice@remote.example'')
      (RefUrl ''https://remote.example/users/alice'')) = Inr True \<and>
   Mention ''@alice@remote.example'' (Some ''https://remote.example/users/alice'')
      \<in> set (fst (fst (getTags example_session (mention_handle ''@alice@remote.example''))))"
  using mentions_spec [of "\<lparr> actor_id = None, actor_url = NoUrl \<rparr>" example_session
      "mention_handle ''@alice@remote.example''" "RefUrl ''https://remote.example/users/alice''"
      "''https://remote.example/users/alice''"]
  by (auto simp: example_alice_tags yields_def)

section \<open>Cached objects of a tree that has not been rendered\<close>






section \<open>Mentions whose actor does not resolve\<close>

text \<open>
  Claim C4, as the code has it. Let the label of a mention resolve to \<open>label\<close>. If the
  promise of \<^verbatim>\<open>#getActor\<close> is fulfilled with \<^verbatim>\<open>null\<close> or with an object that is no actor,
  \<^verbatim>\<open>getHtml\<close> yields the escaped label as its only fragment, \<^verbatim>\<open>getTags\<close> yields nothing,
  and neither throws. If the promise is rejected, both \<^verbatim>\<open>getHtml\<close> and \<^verbatim>\<open>getTags\<close> throw
  the reason of the rejection, having yielded nothing; and if the resolver throws before
  it returns a promise, both throw what it throws.
\<close>

theorem mention_failed_lookup:
  assumes "fst (getLabel session m) = Inr (Fulfilled label)"
  shows "(fst (getActor_start session (snd (getLabel session m))) = Inr (Fulfilled obj) \<and>
          \<not> isActor obj \<longrightarrow>
            fst (getHtml session (MentionText m)) = yields [encode label] \<and>
            fst (getTags session (MentionText m)) = yields []) \<and>
         (fst (getActor_start session (snd (getLabel session m))) = Inr (Rejected e) \<longrightarrow>
            fst (getHtml session (MentionText m)) = throws e \<and>
            fst (getTags session (MentionText m)) = throws e) \<and>
         (fst (getActor_start session (snd (getLabel session m))) = Inl e \<longrightarrow>
            fst (getHtml session (MentionText m)) = throws e \<and>
            fst (getTags session (MentionText m)) = throws e)"
proof -
  have "\<not> isActor obj \<Longrightarrow> mention_url obj = None \<and> mention_tags label obj = []"
    by (cases obj rule: isActor.cases) (simp_all add: mention_url_def mention_tags_def)
  with assms show ?thesis
    by (auto simp: MentionText_getHtml_def MentionText_getTags_def getActor_await_def
        mention_html_def split: prod.splits promise.splits sum.splits)
qed

theorem mention_failed_lookup_witness:
  "fst (getLabel example_session
      (MentionText_new (LabelString ''@nobody@remote.example'')
         (ActorResolver (\<lambda>s. Inr (lookupObject s ''@nobody@remote.example''))))) =
     Inr (Fulfilled ''@nobody@remote.example'') \<and>
   fst (getHtml example_session (MentionText
      (MentionText_new (LabelString ''@nobody@remote.example'')
         (ActorResolver (\<lambda>s. Inr (lookupObject s ''@nobody@remote.example'')))))) =
     yields [''@nobody@remote.example''] \<and>
   fst (getTags example_session (MentionText
      (MentionText_new (LabelString ''@nobody@remote.example'')
         (ActorResolver (\<lambda>s. Inr (lookupObject s ''@nobody@remote.example'')))))) = yields [] \<and>
   fst (getHtml example_session (MentionText
      (MentionText_new (LabelString ''@down@remote.example'')
         (ActorResolver (\<lambda>s. Inr (lookupObject s ''@down@remote.example'')))))) =
     throws (Err ''fetch failed'') \<and>
   fst (getTags example_session (MentionText
      (MentionText_new (LabelString ''@down@remote.example'')
         (ActorResolver (\<lambda>s. Inl (Err ''no session'')))))) =
     throws (Err ''no session'')"
proof -
  let ?m = "MentionText_new (LabelString ''@nobody@remote.example'')
              (ActorResolver (\<lambda>s. Inr (lookupObject s ''@nobody@remote.example'')))"
  let ?d = "MentionText_new (LabelString ''@down@remote.example'')
              (ActorResolver (\<lambda>s. Inr (lookupObject s ''@down@remote.example'')))"
  let ?t = "MentionText_new (LabelString ''@down@remote.example'')
              (ActorResolver (\<lambda>s. Inl (Err ''no session'')))"
  have l: "fst (getLabel example_session ?m) = Inr (Fulfilled ''@nobody@remote.example'')"
    "fst (getLabel example_session ?d) = Inr (Fulfilled ''@down@remote.example'')"
    "fst (getLabel example_session ?t) = Inr (Fulfilled ''@down@remote.example'')"
    by (simp_all add: getLabel_def MentionText_new_def)
  have a: "fst (getActor_start example_session (snd (getLabel example_session ?m))) =
       Inr (Fulfilled None)"
    "fst (getActor_start example_session (snd (getLabel example_session ?d))) =
       Inr (Rejected (Err ''fetch failed''))"
    "fst (getActor_start example_session (snd (getLabel example_session ?t))) =
       Inl (Err ''no session'')"
    by (simp_all add: getLabel_def getActor_start_def MentionText_new_def example_session_def)
  have e: "encode ''@nobody@remote.example'' = ''@nobody@remote.example''"
    by code_simp
  from mention_failed_lookup [OF l(1), of None "Err ''fetch failed''"]
    mention_failed_lookup [OF l(2), of None "Err ''fetch failed''"]
    mention_failed_lookup [OF l(3), of None "Err ''no session''"] l a e
  show ?thesis by simp
qed

text \<open>
  Claim C4 as stated fails: when the lookup of the handle throws, the error leaves both
  \<^verbatim>\<open>getHtml\<close> and \<^verbatim>\<open>getTags\<close>.
\<close>

theorem mention_rejected_lookup_propagates:
  "snd (fst (getHtml example_session (mention_handle ''@down@remote.example''))) =
     Some (Err ''fetch failed'') \<and>
   snd (fst (getTags example_session (mention_handle ''@down@remote.example''))) =
     Some (Err ''fetch failed'')"
  by (simp add: mention_handle_def MentionText_new_def MentionText_getTags_def
      MentionText_getHtml_def getLabel_def getActor_await_def getActor_start_def actor_then_def
      lookup_def example_session_def throws_def Let_def)

section \<open>Memoised resolution of a mention\<close>




















section \<open>Paragraphs of a templated text\<close>

subsection \<open>Paragraph markers in a string\<close>

lemma markers_exclusive: "prefix ''p>'' h \<Longrightarrow> prefix ''/p>'' h \<Longrightarrow> False"
  by (cases h) auto

lemma count_sub_markers:
  "count_sub ''<p>'' h = length (filter (\<lambda>b. b) (markers h))"
  "count_sub ''</p>'' h = length (filter Not (markers h))"
  by (induction h) (auto dest: markers_exclusive)

lemma safe_end_Cons: "safe_end (c # cs) \<Longrightarrow> safe_end cs"
  by (auto simp: safe_end_def suffix_Cons)

lemma prefix_open_append:
  "safe_end (c # cs) \<Longrightarrow> prefix ''<p>'' ((c # cs) @ b) = prefix ''<p>'' (c # cs)"
  by (cases cs; cases "tl cs") (auto simp: safe_end_def)

lemma prefix_close_append:
  "safe_end (c # cs) \<Longrightarrow> prefix ''</p>'' ((c # cs) @ b) = prefix ''</p>'' (c # cs)"
  apply (cases cs; cases "tl cs"; cases "tl (tl cs)") apply (auto simp: safe_end_def) done

lemma markers_append: "safe_end a \<Longrightarrow> markers (a @ b) = markers a @ markers b"
proof (induction a)
  case Nil
  then show ?case by simp
next
  case (Cons c cs)
  from Cons.prems have "safe_end cs" by (rule safe_end_Cons)
  with Cons.IH have ih: "markers (cs @ b) = markers cs @ markers b" by simp
  have "markers ((c # cs) @ b) =
        (if prefix ''<p>'' ((c # cs) @ b) then True # markers (cs @ b)
         else if prefix ''</p>'' ((c # cs) @ b) then False # markers (cs @ b)
         else markers (cs @ b))"
    by simp
  also have "\<dots> = markers (c # cs) @ markers b"
    unfolding prefix_open_append [OF Cons.prems] prefix_close_append [OF Cons.prems] ih by simp
  finally show ?case .
qed

lemma safe_end_append: "safe_end a \<Longrightarrow> safe_end b \<Longrightarrow> safe_end (a @ b)"
  by (auto simp: safe_end_def suffix_append Cons_eq_append_conv)

lemma run_markers_append:
  "run_markers st (a @ b) = (case run_markers st a of None \<Rightarrow> None | Some st' \<Rightarrow> run_markers st' b)"
  by (induction st a rule: run_markers.induct) auto

lemma no_lt_markers: "CHR ''<'' \<notin> set h \<Longrightarrow> markers h = [] \<and> safe_end h"
proof (induction h)
  case Nil
  then show ?case by (simp add: safe_end_def)
next
  case (Cons c cs)
  then have "markers cs = []" "safe_end cs" "c \<noteq> CHR ''<''" by auto
  moreover have "\<not> suffix ''<'' (c # cs)" "\<not> suffix ''<p'' (c # cs)" "\<not> suffix ''</'' (c # cs)" "\<not> suffix ''</p'' (c # cs)"
    using Cons.prems by (auto dest: set_mono_suffix)
  ultimately show ?case by (auto simp: safe_end_def)
qed

lemma encode_no_lt: "CHR ''<'' \<notin> set (encode s)"
  by (induction s) (auto simp: encode_def encode_char_def)

subsection \<open>The three loops of \<^verbatim>\<open>TemplatedText.getHtml\<close>\<close>

lemma concat_markers:
  "list_all safe_end fs \<Longrightarrow> markers (concat fs) = concat (map markers fs) \<and> safe_end (concat fs)"
proof (induction fs)
  case Nil
  then show ?case by (simp add: safe_end_def)
next
  case (Cons f fs)
  then show ?case by (simp add: markers_append safe_end_append)
qed

lemma fragment_markers [simp]:
  "markers ''<p>'' = [True]" "markers ''</p>'' = [False]" "markers ''<br>'' = []"
  "markers (encode s) = []"
  using no_lt_markers [OF encode_no_lt, of s] by simp_all

lemma fragment_safe [simp]:
  "safe_end []" "safe_end ''<p>''" "safe_end ''</p>''" "safe_end ''<br>''"
  by code_simp+

lemma encode_safe [simp]: "safe_end (encode s)"
  using no_lt_markers [OF encode_no_lt, of s] by simp

lemma lines_loop_markers:
  "lines_loop st l lines = (out, st') \<Longrightarrow>
     list_all safe_end out \<and> run_markers st (concat (map markers out)) = Some st'"
proof (induction lines arbitrary: st l out st')
  case Nil
  then show ?case by simp
next
  case (Cons line lines)
  show ?case
  proof (cases "trim line = []")
    case True
    with Cons.prems have "lines_loop st l lines = (out, st')" by simp
    then show ?thesis by (rule Cons.IH)
  next
    case False
    let ?opening = "l < 1 \<and> st = closed"
    obtain rest where r: "lines_loop (if ?opening then opened else st) (Suc l) lines = (rest, st')"
      and out: "out = (if ?opening then [''<p>''] else []) @ (if 0 < l then [''<br>''] else []) @ [encode line] @ rest"
      using Cons.prems False by (auto simp: Let_def split: prod.splits)
    from Cons.IH [OF r] show ?thesis
      by (auto simp: out)
  qed
qed

lemma paragraphs_loop_markers:
  "paragraphs_loop st p paragraphs = (out, st') \<Longrightarrow>
     list_all safe_end out \<and> run_markers st (concat (map markers out)) = Some st'"
proof (induction paragraphs arbitrary: st p out st')
  case Nil
  then show ?case by simp
next
  case (Cons para paragraphs)
  let ?close = "0 < p \<and> st = opened"
  let ?st1 = "if ?close then closed else st"
  obtain o1 st2 rest where l: "lines_loop ?st1 0 (split_on LF para) = (o1, st2)"
    and r: "paragraphs_loop st2 (Suc p) paragraphs = (rest, st')"
    and out: "out = (if ?close then [''</p>''] else []) @ o1 @ rest"
    using Cons.prems by (auto simp: Let_def split: prod.splits)
  from lines_loop_markers [OF l] Cons.IH [OF r] show ?case
    by (auto simp: out run_markers_append)
qed

lemma html_of_yields [simp]: "html_of (yields xs) = concat xs" "snd (yields xs) = None"
  by (simp_all add: html_of_def yields_def)

lemma gen_seq_ok [simp]:
  "snd g = None \<Longrightarrow> html_of (gen_seq g h) = html_of g @ html_of h"
  "snd g = None \<Longrightarrow> snd (gen_seq g h) = snd h"
  "snd g = Some e \<Longrightarrow> gen_seq g h = g"
  by (simp_all add: html_of_def gen_seq_def)

lemma run_markers_closing: "run_markers st (if st = opened then [False] else []) = Some closed"
  by (cases st) simp_all

lemma strings_loop_markers:
  fixes vals :: "(kind \<times> 'n \<times> string gen \<times> 'n) list"
  assumes "list_all (\<lambda>(k, v, gv, v'). snd gv = None \<longrightarrow> child_ok k gv) vals"
    and "strings_loop st strings vals = (g, vs)"
    and "snd g = None"
  shows "safe_end (html_of g) \<and> run_markers st (markers (html_of g)) = Some closed"
  using assms
proof (induction strings arbitrary: st vals g vs)
  case Nil
  then show ?case by (cases st) auto
next
  case (Cons s strings)
  obtain out1 st1 where pl: "paragraphs_loop st 0 (split_paragraphs s) = (out1, st1)"
    by (cases "paragraphs_loop st 0 (split_paragraphs s)")
  from paragraphs_loop_markers [OF pl] concat_markers [of out1]
  have o1: "safe_end (concat out1)" "run_markers st (markers (concat out1)) = Some st1"
    by simp_all
  show ?case
  proof (cases vals)
    case Nil
    let ?none = "[] :: (kind \<times> 'n \<times> string gen \<times> 'n) list"
    obtain g' vs' where r: "strings_loop st1 strings ?none = (g', vs')"
      by (cases "strings_loop st1 strings ?none")
    with Cons.prems pl Nil have g: "g = gen_seq (yields out1) g'" by simp
    with Cons.prems have "snd g' = None" by simp
    from Cons.IH [OF _ r this] o1 show ?thesis
      by (simp add: g markers_append safe_end_append run_markers_append)
  next
    case (Cons child rest)
    obtain k v gv v' where child: "child = (k, v, gv, v')" by (cases child)
    let ?close = "k = block \<and> st1 = opened"
    let ?opening = "k = inline \<and> st1 = closed"
    let ?out2 = "if ?close then [''</p>''] else if ?opening then [''<p>''] else []"
    let ?st2 = "if ?close then closed else if ?opening then opened else st1"
    have ok_gv: "snd gv = None"
    proof (rule ccontr)
      assume "snd gv \<noteq> None"
      then obtain e where "snd gv = Some e" by auto
      with Cons.prems(2) pl Cons child have "g = gen_seq (yields (out1 @ ?out2)) gv"
        by (simp add: Let_def)
      with \<open>snd gv = Some e\<close> Cons.prems(3) show False by simp
    qed
    obtain g' vs' where r: "strings_loop ?st2 strings rest = (g', vs')"
      by (cases "strings_loop ?st2 strings rest")
    with Cons.prems(2) pl Cons child ok_gv
    have g: "g = gen_seq (yields (out1 @ ?out2)) (gen_seq gv g')"
      by (simp add: Let_def)
    with Cons.prems(3) ok_gv have g'_ok: "snd g' = None" by simp
    from Cons.prems(1) Cons child have rest_ok:
      "list_all (\<lambda>(k, v, gv, v'). snd gv = None \<longrightarrow> child_ok k gv) rest"
      and ck: "child_ok k gv"
      using ok_gv by simp_all
    from Cons.IH [OF rest_ok r g'_ok]
    have ih: "safe_end (html_of g')" "run_markers ?st2 (markers (html_of g')) = Some closed"
      by simp_all
    have out2: "safe_end (concat ?out2)" "run_markers st1 (markers (concat ?out2)) = Some ?st2"
      by (cases st1, simp, simp)+
    have through: "run_markers ?st2 (markers (html_of gv)) = Some ?st2"
      using ck by (cases k; cases st1) (simp_all add: child_ok_def well_nested_def)
    have sv: "safe_end (html_of gv)" using ck by (simp add: child_ok_def)
    have html: "html_of g = concat out1 @ concat ?out2 @ html_of gv @ html_of g'"
      using ok_gv by (simp add: g)
    have "safe_end (html_of g)"
      unfolding html using o1(1) out2(1) sv ih(1) by (intro safe_end_append)
    moreover have "run_markers st (markers (html_of g)) = Some closed"
      unfolding html using o1 out2 sv ih through
      by (simp add: markers_append safe_end_append run_markers_append)
    ultimately show ?thesis by simp
  qed
qed

lemma well_nested_balanced:
  "run_markers st ms = Some st' \<Longrightarrow>
     length (filter (\<lambda>b. b) ms) + (if st = opened then 1 else 0) =
     length (filter Not ms) + (if st' = opened then 1 else 0)"
  by (induction st ms rule: run_markers.induct) (auto split: if_splits)

lemma well_nested_counts: "well_nested h \<Longrightarrow> count_sub ''<p>'' h = count_sub ''</p>'' h"
  using well_nested_balanced [of closed "markers h" closed]
  by (simp add: well_nested_def count_sub_markers)

text \<open>
  The paragraph engine. If the values of a templated text that render behave as above
  and the rendering does not throw, the markers of the output are well nested, and so
  there are as many \<^verbatim>\<open><p>\<close> as \<^verbatim>\<open></p>\<close>.
\<close>

theorem templated_paragraphs_well_nested:
  assumes "list_all (\<lambda>v. snd (fst (getHtml session v)) = None \<longrightarrow>
                          child_ok (text_type v) (fst (getHtml session v))) vals"
    and "snd (fst (getHtml session (TemplatedText strings vals))) = None"
  shows "well_nested (html_of (fst (getHtml session (TemplatedText strings vals)))) \<and>
         safe_end (html_of (fst (getHtml session (TemplatedText strings vals)))) \<and>
         count_sub ''<p>'' (html_of (fst (getHtml session (TemplatedText strings vals)))) =
         count_sub ''</p>'' (html_of (fst (getHtml session (TemplatedText strings vals))))"
proof -
  let ?vals = "map (\<lambda>v. (text_type v, v, getHtml session v)) vals"
  obtain g vs where l: "strings_loop closed strings ?vals = (g, vs)"
    by (cases "strings_loop closed strings ?vals")
  then have g: "fst (getHtml session (TemplatedText strings vals)) = g" by simp
  from assms(1) have c: "list_all (\<lambda>(k, v, gv, v'). snd gv = None \<longrightarrow> child_ok k gv) ?vals"
    by (fastforce simp: list_all_iff)
  from strings_loop_markers [OF c l] assms(2) g
  have "safe_end (html_of g)" "well_nested (html_of g)"
    by (simp_all add: well_nested_def)
  with well_nested_counts [of "html_of g"] show ?thesis
    unfolding g by simp
qed

subsection \<open>A single literal\<close>

lemma lines_loop_opened:
  "lines_loop opened l lines = (out, st') \<Longrightarrow>
     st' = opened \<and> filter (\<lambda>b. b) (concat (map markers out)) = []"
proof (induction lines arbitrary: l out st')
  case Nil
  then show ?case by simp
next
  case (Cons line lines)
  show ?case
  proof (cases "trim line = []")
    case True
    with Cons.prems have "lines_loop opened l lines = (out, st')" by simp
    then show ?thesis by (rule Cons.IH)
  next
    case False
    obtain rest where r: "lines_loop opened (Suc l) lines = (rest, st')"
      and out: "out = (if 0 < l then [''<br>''] else []) @ [encode line] @ rest"
      using Cons.prems False by (auto simp: Let_def split: prod.splits)
    from Cons.IH [OF r] show ?thesis by (auto simp: out)
  qed
qed

lemma lines_loop_closed:
  "lines_loop closed 0 lines = (out, st') \<Longrightarrow>
     st' = (if list_ex (\<lambda>line. trim line \<noteq> []) lines then opened else closed) \<and>
     length (filter (\<lambda>b. b) (concat (map markers out))) =
       (if list_ex (\<lambda>line. trim line \<noteq> []) lines then 1 else 0)"
proof (induction lines arbitrary: out st')
  case Nil
  then show ?case by simp
next
  case (Cons line lines)
  show ?case
  proof (cases "trim line = []")
    case True
    with Cons.prems have "lines_loop closed 0 lines = (out, st')" by simp
    from Cons.IH [OF this] True show ?thesis by simp
  next
    case False
    obtain rest where r: "lines_loop opened (Suc 0) lines = (rest, st')"
      and out: "out = [''<p>''] @ [encode line] @ rest"
      using Cons.prems False by (auto simp: Let_def split: prod.splits)
    from lines_loop_opened [OF r] False show ?thesis by (auto simp: out)
  qed
qed

lemma paragraphs_loop_count:
  "paragraphs_loop st p paragraphs = (out, st') \<Longrightarrow> (p = 0 \<longrightarrow> st = closed) \<Longrightarrow>
     length (filter (\<lambda>b. b) (concat (map markers out))) = length (filter has_text paragraphs)"
proof (induction paragraphs arbitrary: st p out st')
  case Nil
  then show ?case by simp
next
  case (Cons para paragraphs)
  let ?close = "0 < p \<and> st = opened"
  have st1: "(if ?close then closed else st) = closed"
    using Cons.prems(2) by (cases st) auto
  obtain o1 st2 rest where l: "lines_loop closed 0 (split_on LF para) = (o1, st2)"
    and r: "paragraphs_loop st2 (Suc p) paragraphs = (rest, st')"
    and out: "out = (if ?close then [''</p>''] else []) @ o1 @ rest"
    using Cons.prems(1) st1 by (auto simp: Let_def split: prod.splits)
  from lines_loop_closed [OF l] Cons.IH [OF r] show ?case
    by (auto simp: out has_text_def)
qed

text \<open>
  A template of one literal and no value renders one paragraph for each piece of the
  split that has a line with text: that many \<^verbatim>\<open><p>\<close>, that many \<^verbatim>\<open></p>\<close>, well nested.
  (The pieces that the capture group adds to the split are blank.)
\<close>

theorem literal_paragraph_count:
  "count_sub ''<p>'' (html_of (fst (getHtml session (TemplatedText [s] [])))) =
     length (filter has_text (split_paragraphs s)) \<and>
   count_sub ''</p>'' (html_of (fst (getHtml session (TemplatedText [s] [])))) =
     length (filter has_text (split_paragraphs s)) \<and>
   well_nested (html_of (fst (getHtml session (TemplatedText [s] []))))"
proof -
  obtain out st where pl: "paragraphs_loop closed 0 (split_paragraphs s) = (out, st)"
    by (cases "paragraphs_loop closed 0 (split_paragraphs s)")
  define ending where "ending = (if st = opened then [''</p>''] else [])"
  define h where "h = concat (out @ ending)"
  have g: "html_of (fst (getHtml session (TemplatedText [s] []))) = h"
    using pl by (simp add: gen_seq_def yields_def html_of_def h_def ending_def)
  from paragraphs_loop_markers [OF pl]
  have safe: "list_all safe_end (out @ ending)"
    and run: "run_markers closed (concat (map markers (out @ ending))) = Some closed"
    by (cases st; simp add: run_markers_append ending_def)+
  from concat_markers [OF safe]
  have m: "markers h = concat (map markers (out @ ending))"
    by (simp add: h_def)
  have opens: "length (filter (\<lambda>b. b) (markers h)) = length (filter has_text (split_paragraphs s))"
    using paragraphs_loop_count [OF pl] by (simp add: m ending_def)
  have wn: "well_nested h"
    unfolding well_nested_def m by (rule run)
  from well_nested_counts [OF wn] opens
  have "count_sub ''<p>'' h = length (filter has_text (split_paragraphs s))"
    "count_sub ''</p>'' h = length (filter has_text (split_paragraphs s))"
    by (simp_all add: count_sub_markers)
  with wn show ?thesis unfolding g by simp
qed

subsection \<open>Trees of the ten classes\<close>

lemma plain_append: "plain a \<Longrightarrow> plain b \<Longrightarrow> plain (a @ b)"
  by (simp add: plain_def markers_append safe_end_append)

lemma plain_concat: "list_all plain fs \<Longrightarrow> plain (concat fs)"
  by (induction fs) (simp_all add: plain_append, simp add: plain_def)

lemma plain_no_lt: "CHR ''<'' \<notin> set h \<Longrightarrow> plain h"
  by (simp add: plain_def no_lt_markers)

lemma plain_encode [simp]: "plain (encode s)"
  by (rule plain_no_lt [OF encode_no_lt])

lemma plain_fragments [simp]:
  "plain []"
  "plain ''<br>''"
  "plain ''<strong>''" "plain ''</strong>''"
  "plain ''<em>''" "plain ''</em>''"
  "plain ''<code>''" "plain ''</code>''"
  "plain ''<a href=\"''" "plain ''\" target=\"_blank\">''" "plain ''</a>''"
  "plain ''\" translate=\"no\" class=\"h-card u-url mention\" target=\"_blank\">''"
  "plain ''@<span>''" "plain ''</span>''"
  "plain ''/tags/''"
  "plain ''\" class=\"mention hashtag\" rel=\"tag\" target=\"_blank\">#<span>''"
  "plain ''</span></a>''"
  "plain ZWSP"
  by code_simp+

lemma plain_lines_plain: "list_all plain (plain_lines first lines)"
  by (induction lines arbitrary: first) simp_all

lemma mention_html_plain: "list_all plain (mention_html label actor)"
  by (simp add: mention_html_def split: option.splits list.splits)

lemma wrap_plain:
  assumes "snd (gen_seq (yields [a]) (gen_seq g (yields [b]))) = None"
    and "snd g = None \<Longrightarrow> plain (html_of g)"
    and "plain a" "plain b"
  shows "child_ok inline (gen_seq (yields [a]) (gen_seq g (yields [b])))"
proof -
  have ok: "snd g = None"
    using assms(1) by (cases "snd g") (simp_all add: gen_seq_def yields_def)
  then have "html_of (gen_seq (yields [a]) (gen_seq g (yields [b]))) = a @ html_of g @ b"
    by simp
  with assms(2) [OF ok] assms(3,4) show ?thesis
    by (simp add: child_ok_def plain_def markers_append safe_end_append)
qed

lemma MentionText_getHtml_ok:
  "snd (fst (MentionText_getHtml session m)) = None \<Longrightarrow>
     \<exists>label actor. fst (MentionText_getHtml session m) = yields (mention_html label actor)"
  by (auto simp: MentionText_getHtml_def throws_def split: prod.splits promise.splits sum.splits)

lemma paragraph_safe_child_ok:
  "paragraph_safe session t \<Longrightarrow> snd (fst (getHtml session t)) = None \<Longrightarrow>
     child_ok (text_type t) (fst (getHtml session t))"
proof (induction t)
  case (PlainText x)
  have "plain (html_of (PlainText_getHtml x))"
    by (simp add: PlainText_getHtml_def plain_concat plain_lines_plain)
  then show ?case by (simp add: child_ok_def plain_def)
next
  case (MentionText m)
  from MentionText.prems(2) have "snd (fst (MentionText_getHtml session m)) = None"
    by (simp split: prod.splits)
  from MentionText_getHtml_ok [OF this]
  have "plain (html_of (fst (MentionText_getHtml session m)))"
    by (auto simp: plain_concat mention_html_plain)
  then show ?case by (auto simp: child_ok_def plain_def split: prod.splits)
next
  case (HashtagText tag)
  then have "plain tag" by (simp add: plain_no_lt)
  then have "plain (html_of (HashtagText_getHtml session tag))"
    unfolding HashtagText_getHtml_def html_of_yields by (intro plain_concat) simp
  then show ?case by (simp add: child_ok_def plain_def)
next
  case (StrongText t)
  obtain g t' where g: "getHtml session t = (g, t')" by (cases "getHtml session t")
  from StrongText g have "snd g = None \<Longrightarrow> plain (html_of g)"
    by (simp add: child_ok_def plain_def)
  with StrongText.prems(2) g show ?case by (simp add: wrap_plain)
next
  case (EmText t)
  obtain g t' where g: "getHtml session t = (g, t')" by (cases "getHtml session t")
  from EmText g have "snd g = None \<Longrightarrow> plain (html_of g)"
    by (simp add: child_ok_def plain_def)
  with EmText.prems(2) g show ?case by (simp add: wrap_plain)
next
  case (LinkText t href)
  obtain g t' where g: "getHtml session t = (g, t')" by (cases "getHtml session t")
  from LinkText g have p: "snd g = None \<Longrightarrow> plain (html_of g)"
    by (simp add: child_ok_def plain_def)
  let ?a = "[''<a href=\"'', encode href, ''\" target=\"_blank\">'']"
  have ok: "snd g = None"
    using LinkText.prems(2) g by (cases "snd g") (simp_all add: gen_seq_def yields_def)
  then have "html_of (gen_seq (yields ?a) (gen_seq g (yields [''</a>'']))) =
             concat ?a @ html_of g @ ''</a>''"
    by simp
  moreover have "plain (concat ?a)" by (rule plain_concat) simp
  ultimately have "plain (html_of (gen_seq (yields ?a) (gen_seq g (yields [''</a>'']))))"
    using p [OF ok] by (simp only: plain_append plain_fragments)
  then show ?case using g by (simp add: child_ok_def plain_def)
next
  case (CodeText t)
  obtain g t' where g: "getHtml session t = (g, t')" by (cases "getHtml session t")
  from CodeText g have "snd g = None \<Longrightarrow> plain (html_of g)"
    by (simp add: child_ok_def plain_def)
  with CodeText.prems(2) g show ?case by (simp add: wrap_plain)
next
  case (CustomEmojiText e)
  have "plain (html_of (CustomEmojiText_getHtml session e))"
    by (simp add: CustomEmojiText_getHtml_def plain_append split: option.splits)
  then show ?case by (simp add: child_ok_def plain_def)
next
  case (TemplatedText strings vals)
  have "list_all (\<lambda>v. snd (fst (getHtml session v)) = None \<longrightarrow>
                      child_ok (text_type v) (fst (getHtml session v))) vals"
    using TemplatedText.IH TemplatedText.prems(1) by (auto simp: list_all_iff)
  from templated_paragraphs_well_nested [OF this TemplatedText.prems(2)]
  show ?case by (simp only: child_ok_def text_type.simps) simp
next
  case (MarkdownText md)
  then show ?case by (auto split: prod.splits)
qed

text \<open>
  On such a tree the paragraphs of a templated text are well nested whenever the
  rendering does not throw.
\<close>

theorem paragraph_safe_well_nested:
  assumes "paragraph_safe session (TemplatedText strings vals)"
    and "snd (fst (getHtml session (TemplatedText strings vals))) = None"
  shows "well_nested (html_of (fst (getHtml session (TemplatedText strings vals)))) \<and>
         count_sub ''<p>'' (html_of (fst (getHtml session (TemplatedText strings vals)))) =
         count_sub ''</p>'' (html_of (fst (getHtml session (TemplatedText strings vals))))"
proof -
  from paragraph_safe_child_ok [OF assms]
  have "well_nested (html_of (fst (getHtml session (TemplatedText strings vals))))"
    by (simp add: child_ok_def del: getHtml.simps)
  with well_nested_counts [OF this] show ?thesis by simp
qed

theorem hello_world_paragraphs:
  "paragraph_safe example_session hello_world \<and>
   html_of (fst (getHtml example_session hello_world)) =
     ''<p>Hello, &lt;<em>World</em>&gt;!</p><p>Goodbye!</p>'' \<and>
   count_sub ''<p>'' (html_of (fst (getHtml example_session hello_world))) = 2 \<and>
   count_sub ''</p>'' (html_of (fst (getHtml example_session hello_world))) = 2"
proof -
  have s: "paragraph_safe example_session hello_world"
    by (simp add: hello_world_def TemplatedText_new_def coerce_def em_def EmText_new_def
        as_text_def)
  have "html_of (fst (getHtml example_session hello_world)) =
     ''<p>Hello, &lt;<em>World</em>&gt;!</p><p>Goodbye!</p>''"
    by code_simp
  moreover have
    "count_sub ''<p>'' ''<p>Hello, &lt;<em>World</em>&gt;!</p><p>Goodbye!</p>'' = 2"
    "count_sub ''</p>'' ''<p>Hello, &lt;<em>World</em>&gt;!</p><p>Goodbye!</p>'' = 2"
    by code_simp+
  ultimately show ?thesis using s by simp
qed

subsection \<open>A hashtag that holds markup\<close>

text \<open>
  Claim C2, at the input where the code departs from it: the template with the one
  interpolated value \<^verbatim>\<open>hashtag("<p>")\<close> between two empty literals. \<^verbatim>\<open>HashtagText.getHtml\<close>
  yields the tag as it is, so the output holds the marker \<^verbatim>\<open><p>\<close> twice and the marker
  \<^verbatim>\<open></p>\<close> once.
\<close>

theorem templated_hashtag_unbalanced:
  "html_of (fst (getHtml example_session
      (TemplatedText_new ['''', ''''] [IText (hashtag ''<p>'')]))) =
     ''<p><a href=\"https://example.com/tags/%3Cp%3E\" class=\"mention hashtag\" rel=\"tag\" target=\"_blank\">#<span><p></span></a></p>'' \<and>
   count_sub ''<p>'' (html_of (fst (getHtml example_session
      (TemplatedText_new ['''', ''''] [IText (hashtag ''<p>'')])))) = 2 \<and>
   count_sub ''</p>'' (html_of (fst (getHtml example_session
      (TemplatedText_new ['''', ''''] [IText (hashtag ''<p>'')])))) = 1"
  by code_simp

end
